theory Spec2Isabelle
  imports Main "HOL-Library.Word"
begin

unbundle bit_operations_syntax

section \<open>Platform types and constants\<close>

text \<open>
  The native module \<^verbatim>\<open>src/native/window-manager.cc\<close> works on handles and 32-bit
  style words of the windowing system. A window handle is a pointer-sized value
  (\<^verbatim>\<open>NULL\<close> is 0), \<^verbatim>\<open>DWORD\<close>, \<^verbatim>\<open>LONG\<close>, \<^verbatim>\<open>UINT\<close> and \<^verbatim>\<open>int\<close> are 32 bits wide;
  the bitwise operators of the source act on the bits only, so all of them are
  words here (\<open>sint\<close> reads the signed value where one is needed).
\<close>

type_synonym HWND = "64 word"
type_synonym HANDLE = "64 word"
type_synonym DWORD = "32 word"
type_synonym LONG = "32 word"
type_synonym UINT = "32 word"
type_synonym cint = "32 word"

record RECT =
  left :: LONG
  top :: LONG
  right :: LONG
  bottom :: LONG

record PROCESS_INFORMATION =
  hProcess :: HANDLE
  hThread :: HANDLE
  dwProcessId :: DWORD
  dwThreadId :: DWORD

text \<open>
  Modelled from the spec: the style bits that the spec names (resizable frame,
  minimize and maximize box, system menu, popup, child window, visible, caption,
  border, tool window, and the four extended edge bits) and the flags of the
  positioning call. The source takes them from the platform header
  \<^verbatim>\<open>windows.h\<close>, which is not part of the repository; the values are the ones of
  that header. Note that the caption mask is two bits wide and contains the
  border bit.
\<close>

definition WS_POPUP :: LONG where "WS_POPUP = 0x80000000"
definition WS_CHILD :: LONG where "WS_CHILD = 0x40000000"
definition WS_VISIBLE :: LONG where "WS_VISIBLE = 0x10000000"
definition WS_CAPTION :: LONG where "WS_CAPTION = 0x00C00000"
definition WS_BORDER :: LONG where "WS_BORDER = 0x00800000"
definition WS_DLGFRAME :: LONG where "WS_DLGFRAME = 0x00400000"
definition WS_SYSMENU :: LONG where "WS_SYSMENU = 0x00080000"
definition WS_THICKFRAME :: LONG where "WS_THICKFRAME = 0x00040000"
definition WS_MINIMIZEBOX :: LONG where "WS_MINIMIZEBOX = 0x00020000"
definition WS_MAXIMIZEBOX :: LONG where "WS_MAXIMIZEBOX = 0x00010000"

definition WS_EX_DLGMODALFRAME :: LONG where "WS_EX_DLGMODALFRAME = 0x00000001"
definition WS_EX_TOOLWINDOW :: LONG where "WS_EX_TOOLWINDOW = 0x00000080"
definition WS_EX_WINDOWEDGE :: LONG where "WS_EX_WINDOWEDGE = 0x00000100"
definition WS_EX_CLIENTEDGE :: LONG where "WS_EX_CLIENTEDGE = 0x00000200"
definition WS_EX_STATICEDGE :: LONG where "WS_EX_STATICEDGE = 0x00020000"

definition GWL_STYLE :: int where "GWL_STYLE = - 16"
definition GWL_EXSTYLE :: int where "GWL_EXSTYLE = - 20"

definition SW_HIDE :: int where "SW_HIDE = 0"
definition SW_SHOW :: int where "SW_SHOW = 5"

definition SWP_NOSIZE :: UINT where "SWP_NOSIZE = 0x0001"
definition SWP_NOMOVE :: UINT where "SWP_NOMOVE = 0x0002"
definition SWP_NOZORDER :: UINT where "SWP_NOZORDER = 0x0004"
definition SWP_FRAMECHANGED :: UINT where "SWP_FRAMECHANGED = 0x0020"
definition SWP_SHOWWINDOW :: UINT where "SWP_SHOWWINDOW = 0x0040"

definition HWND_TOP :: HWND where "HWND_TOP = 0"

definition RDW_ALLCHILDREN :: UINT where "RDW_ALLCHILDREN = 0x0080"
definition RDW_UPDATENOW :: UINT where "RDW_UPDATENOW = 0x0100"

definition PROCESS_TERMINATE :: DWORD where "PROCESS_TERMINATE = 0x0001"
definition PROCESS_VM_READ :: DWORD where "PROCESS_VM_READ = 0x0010"
definition PROCESS_QUERY_INFORMATION :: DWORD where "PROCESS_QUERY_INFORMATION = 0x0400"

definition MAX_PATH :: nat where "MAX_PATH = 260"


section \<open>The boundary to the scripting host\<close>

text \<open>
  Every exported function receives the argument list of the call
  (\<^verbatim>\<open>Napi::CallbackInfo\<close>) and hands back an object. Arguments are script values.
  A script number is a double; the model carries the integral numbers only, as
  \<open>int\<close>, and the conversions cut them to the width the source asks for.
  A function that calls \<^verbatim>\<open>ThrowAsJavaScriptException\<close> leaves a pending
  exception: the host raises it in the caller and discards the returned object.
\<close>

datatype jsval = JUndefined | JBoolean bool | JNumber int | JString string

type_synonym jsobject = "string \<rightharpoonup> jsval"

datatype napi_result = Returned jsobject | ThrownTypeError string

fun IsNumber :: "jsval \<Rightarrow> bool" where
  "IsNumber (JNumber n) = True"
| "IsNumber v = False"

fun IsString :: "jsval \<Rightarrow> bool" where
  "IsString (JString t) = True"
| "IsString v = False"

fun IsBoolean :: "jsval \<Rightarrow> bool" where
  "IsBoolean (JBoolean b) = True"
| "IsBoolean v = False"

text \<open>\<^verbatim>\<open>info[i]\<close>: the i-th argument, and \<^verbatim>\<open>undefined\<close> beyond the arguments given.\<close>

definition arg :: "jsval list \<Rightarrow> nat \<Rightarrow> jsval" where
  "arg info i = (if i < length info then info ! i else JUndefined)"

fun Int64Value :: "jsval \<Rightarrow> 64 word" where
  "Int64Value (JNumber n) = word_of_int n"
| "Int64Value v = 0"

fun Int32Value :: "jsval \<Rightarrow> cint" where
  "Int32Value (JNumber n) = word_of_int n"
| "Int32Value v = 0"

fun Uint32Value :: "jsval \<Rightarrow> DWORD" where
  "Uint32Value (JNumber n) = word_of_int n"
| "Uint32Value v = 0"

fun BooleanValue :: "jsval \<Rightarrow> bool" where
  "BooleanValue (JBoolean b) = b"
| "BooleanValue v = False"

fun Utf8Value :: "jsval \<Rightarrow> string" where
  "Utf8Value (JString t) = t"
| "Utf8Value v = []"

definition Object_New :: jsobject where
  "Object_New = Map.empty"

text \<open>\<^verbatim>\<open>result.Set(key, value)\<close>\<close>

definition result_Set :: "jsobject \<Rightarrow> string \<Rightarrow> jsval \<Rightarrow> jsobject" where
  "result_Set result k v = result(k \<mapsto> v)"

text \<open>
  The two lines every failure path of the source writes:
  \<^verbatim>\<open>result.Set("success", false); result.Set("error", message)\<close>.
\<close>

definition failed :: "string \<Rightarrow> jsobject" where
  "failed message =
     result_Set (result_Set Object_New ''success'' (JBoolean False)) ''error'' (JString message)"


section \<open>The windowing layer\<close>

text \<open>
  The module calls the windowing system and the process manager of the platform.
  They are a parameter of the model: a record of the calls over a state \<open>'s\<close> of
  the platform, so that a theorem about \<open>api\<close> holds for every windowing layer,
  the real one and a mock alike. Calls that only read are functions of the
  state; every other call returns its result together with the next state, and
  may change anything there (destroy the window, set the last-error code).
  Between two calls of the module nothing else happens: the module is
  single-threaded and synchronous.
  \<open>EnumWindows\<close> gives the top-level windows in the order in which the platform
  hands them to the callback.
\<close>

record 's winapi =
  IsWindow :: "HWND \<Rightarrow> 's \<Rightarrow> bool"
  IsWindowVisible :: "HWND \<Rightarrow> 's \<Rightarrow> bool"
  GetParent :: "HWND \<Rightarrow> 's \<Rightarrow> HWND"
  GetWindowThreadProcessId :: "HWND \<Rightarrow> 's \<Rightarrow> DWORD"
  GetClassNameA :: "HWND \<Rightarrow> 's \<Rightarrow> string"
  GetWindowTextA :: "HWND \<Rightarrow> 's \<Rightarrow> string"
  GetWindowLongW :: "HWND \<Rightarrow> int \<Rightarrow> 's \<Rightarrow> LONG"
  GetModuleFileNameExA :: "HANDLE \<Rightarrow> 's \<Rightarrow> string option"
  GetLastError :: "'s \<Rightarrow> DWORD"
  FormatMessageA :: "DWORD \<Rightarrow> string"
  EnumWindows :: "'s \<Rightarrow> HWND list"
  ShowWindow :: "HWND \<Rightarrow> int \<Rightarrow> 's \<Rightarrow> bool \<times> 's"
  BringWindowToTop :: "HWND \<Rightarrow> 's \<Rightarrow> bool \<times> 's"
  SetForegroundWindow :: "HWND \<Rightarrow> 's \<Rightarrow> bool \<times> 's"
  SetParent :: "HWND \<Rightarrow> HWND \<Rightarrow> 's \<Rightarrow> HWND \<times> 's"
  SetWindowLongW :: "HWND \<Rightarrow> int \<Rightarrow> LONG \<Rightarrow> 's \<Rightarrow> LONG \<times> 's"
  SetWindowPos :: "HWND \<Rightarrow> HWND \<Rightarrow> cint \<Rightarrow> cint \<Rightarrow> cint \<Rightarrow> cint \<Rightarrow> UINT \<Rightarrow> 's \<Rightarrow> bool \<times> 's"
  InvalidateRect :: "HWND \<Rightarrow> bool \<Rightarrow> 's \<Rightarrow> bool \<times> 's"
  UpdateWindow :: "HWND \<Rightarrow> 's \<Rightarrow> bool \<times> 's"
  RedrawWindow :: "HWND \<Rightarrow> UINT \<Rightarrow> 's \<Rightarrow> bool \<times> 's"
  GetWindowRect :: "HWND \<Rightarrow> 's \<Rightarrow> RECT option \<times> 's"
  CreateProcessA :: "string \<Rightarrow> 's \<Rightarrow> PROCESS_INFORMATION option \<times> 's"
  OpenProcess :: "DWORD \<Rightarrow> DWORD \<Rightarrow> 's \<Rightarrow> HANDLE \<times> 's"
  TerminateProcess :: "HANDLE \<Rightarrow> UINT \<Rightarrow> 's \<Rightarrow> bool \<times> 's"
  CloseHandle :: "HANDLE \<Rightarrow> 's \<Rightarrow> bool \<times> 's"


section \<open>The module\<close>

subsection \<open>GetLastErrorString\<close>

definition GetLastErrorString :: "'s winapi \<Rightarrow> 's \<Rightarrow> string" where
  "GetLastErrorString api s =
     (let error = GetLastError api s
      in if error = 0 then ''Unknown error'' else FormatMessageA api error)"


subsection \<open>FindMainWindow\<close>

text \<open>
  The data the enumeration callback works on, and the callback itself: its
  result is the flag it returns to the platform (\<open>True\<close> to continue, \<open>False\<close>
  to stop) and the data as it leaves them. The class name and the title are read
  into buffers of 256 bytes, which hold at most 255 characters. The source reads
  the style words with \<^verbatim>\<open>GetWindowLong\<close>, the name that the platform header maps to
  the call \<open>GetWindowLongW\<close> (or to its byte-string twin, which reads the same words).
\<close>

record EnumData =
  processId :: DWORD
  hwnd :: HWND
  bestHwnd :: HWND

definition is_system_class :: "string \<Rightarrow> bool" where
  "is_system_class className \<longleftrightarrow>
     className = ''Shell_TrayWnd'' \<or> className = ''Button'' \<or>
     className = ''Progman'' \<or> className = ''Shell_SecondaryTrayWnd''"

definition EnumWindowsProc :: "'s winapi \<Rightarrow> 's \<Rightarrow> HWND \<Rightarrow> EnumData \<Rightarrow> bool \<times> EnumData" where
  "EnumWindowsProc api s h data =
     (let windowProcessId = GetWindowThreadProcessId api h s
      in if windowProcessId = processId data then
           (let className = take 255 (GetClassNameA api h s)
            in if is_system_class className then (True, data)
               else if IsWindowVisible api h s \<and> GetParent api h s = 0 \<and>
                       (let title = take 255 (GetWindowTextA api h s);
                            style = GetWindowLongW api h GWL_STYLE s
                        in length title > 0 \<or> style AND WS_CAPTION \<noteq> 0 \<or> style AND WS_BORDER \<noteq> 0)
                    then (False, data\<lparr>hwnd := h\<rparr>)
               else if bestHwnd data = 0 \<and> IsWindow api h s then
                      (let exStyle = GetWindowLongW api h GWL_EXSTYLE s
                       in if exStyle AND WS_EX_TOOLWINDOW = 0 then (True, data\<lparr>bestHwnd := h\<rparr>)
                          else (True, data))
               else (True, data))
         else (True, data))"

text \<open>The platform's enumeration: call the callback on each window until it returns \<open>False\<close>.\<close>

fun enumerate_windows :: "(HWND \<Rightarrow> 'd \<Rightarrow> bool \<times> 'd) \<Rightarrow> HWND list \<Rightarrow> 'd \<Rightarrow> 'd" where
  "enumerate_windows f [] data = data"
| "enumerate_windows f (h # hs) data =
     (case f h data of (continue, data') \<Rightarrow> if continue then enumerate_windows f hs data' else data')"

definition FindMainWindow :: "'s winapi \<Rightarrow> DWORD \<Rightarrow> 's \<Rightarrow> HWND" where
  "FindMainWindow api pid s =
     (let enumData = enumerate_windows (EnumWindowsProc api s) (EnumWindows api s)
                       \<lparr>processId = pid, hwnd = 0, bestHwnd = 0\<rparr>
      in if hwnd enumData \<noteq> 0 then hwnd enumData else bestHwnd enumData)"

subsection \<open>LaunchApplication\<close>

definition LaunchApplication :: "'s winapi \<Rightarrow> jsval list \<Rightarrow> 's \<Rightarrow> napi_result \<times> 's" where
  "LaunchApplication api info s =
     (if length info < 2 \<or> \<not> IsString (arg info 0) \<or> \<not> IsNumber (arg info 1) then
        (ThrownTypeError ''Expected (exePath: string, parentHWND: number)'', s)
      else
        (let exePath = Utf8Value (arg info 0)
         in case CreateProcessA api exePath s of
              (None, s1) \<Rightarrow>
                (Returned (failed (''Failed to launch process: '' @ GetLastErrorString api s1)), s1)
            | (Some pi, s1) \<Rightarrow>
                (let s2 = snd (CloseHandle api (hThread pi) s1);
                     result = result_Set Object_New ''success'' (JBoolean True);
                     result = result_Set result ''processId'' (JNumber (uint (dwProcessId pi)));
                     result = result_Set result ''processHandle'' (JNumber (sint (hProcess pi)))
                 in (Returned result, s2))))"

subsection \<open>EmbedWindow\<close>

text \<open>
  The style words that \<^verbatim>\<open>EmbedWindow\<close> computes from the ones it has read
  (lines 202 to 218 of the source), as functions of the original words.
\<close>

definition EmbedWindow_style :: "LONG \<Rightarrow> LONG" where
  "EmbedWindow_style originalStyle =
     (let style = originalStyle;
          style = style AND NOT (WS_THICKFRAME OR WS_MINIMIZEBOX OR WS_MAXIMIZEBOX OR WS_SYSMENU OR WS_POPUP);
          style = style OR (WS_CHILD OR WS_VISIBLE)
      in if originalStyle AND WS_CAPTION \<noteq> 0 then style OR (WS_CAPTION OR WS_BORDER)
         else style OR WS_BORDER)"

definition EmbedWindow_exStyle :: "LONG \<Rightarrow> LONG" where
  "EmbedWindow_exStyle originalExStyle =
     originalExStyle AND
       NOT (WS_EX_DLGMODALFRAME OR WS_EX_WINDOWEDGE OR WS_EX_CLIENTEDGE OR WS_EX_STATICEDGE)"

text \<open>The body of \<^verbatim>\<open>EmbedWindow\<close> once the six arguments are read.\<close>

definition EmbedWindow_body :: "'s winapi \<Rightarrow> HWND \<Rightarrow> HWND \<Rightarrow> cint \<Rightarrow> cint \<Rightarrow> cint \<Rightarrow> cint \<Rightarrow> 's \<Rightarrow> jsobject \<times> 's" where
  "EmbedWindow_body api h parentHWND x y width height s =
     (if \<not> IsWindow api h s then (failed ''Invalid window handle'', s)
      else
        (let s1 = snd (ShowWindow api h SW_SHOW s);
             s2 = snd (BringWindowToTop api h s1);
             s3 = snd (SetForegroundWindow api h s2)
         in case SetParent api h parentHWND s3 of (oldParent, s4) \<Rightarrow>
           if oldParent = 0 \<and> GetLastError api s4 \<noteq> 0 then
             (let error = GetLastError api s4
              in if error = 87 then
                   (failed ''Application refuses window embedding (security restriction)'', s4)
                 else (failed (''Failed to set parent: '' @ GetLastErrorString api s4), s4))
           else if \<not> IsWindow api h s4 then
             (failed ''Window closed immediately after embedding (app may not support embedding)'', s4)
           else
             (let originalStyle = GetWindowLongW api h GWL_STYLE s4;
                  originalExStyle = GetWindowLongW api h GWL_EXSTYLE s4
              in if \<not> IsWindow api h s4 then
                   (failed ''Window closed immediately after SetParent (app security restriction)'', s4)
                 else
                   (let style = EmbedWindow_style originalStyle;
                        exStyle = EmbedWindow_exStyle originalExStyle;
                        s5 = snd (SetWindowLongW api h GWL_STYLE style s4);
                        s6 = snd (SetWindowLongW api h GWL_EXSTYLE exStyle s5)
                    in if \<not> IsWindow api h s6 then
                         (failed ''Window closed after style modification (app may not support embedding)'', s6)
                       else
                         (case SetWindowPos api h HWND_TOP x y width height
                                 (SWP_SHOWWINDOW OR SWP_FRAMECHANGED OR SWP_NOZORDER) s6 of
                            (posSuccess, s7) \<Rightarrow>
                              if \<not> posSuccess then
                                (failed (''Failed to position window: '' @ GetLastErrorString api s7), s7)
                              else if \<not> IsWindow api h s7 then
                                (failed ''Window closed during embedding process'', s7)
                              else
                                (let s8 = snd (ShowWindow api h SW_SHOW s7);
                                     s9 = snd (BringWindowToTop api h s8);
                                     s10 = snd (InvalidateRect api h True s9);
                                     s11 = snd (UpdateWindow api h s10);
                                     s12 = snd (RedrawWindow api h (RDW_UPDATENOW OR RDW_ALLCHILDREN) s11)
                                 in (result_Set Object_New ''success'' (JBoolean True), s12)))))))"

definition EmbedWindow :: "'s winapi \<Rightarrow> jsval list \<Rightarrow> 's \<Rightarrow> napi_result \<times> 's" where
  "EmbedWindow api info s =
     (if length info < 6 \<or> \<not> IsNumber (arg info 0) \<or> \<not> IsNumber (arg info 1) \<or>
         \<not> IsNumber (arg info 2) \<or> \<not> IsNumber (arg info 3) \<or> \<not> IsNumber (arg info 4) \<or>
         \<not> IsNumber (arg info 5) then
        (ThrownTypeError
           ''Expected (hwnd: number, parentHWND: number, x: number, y: number, width: number, height: number)'', s)
      else
        (case EmbedWindow_body api (Int64Value (arg info 0)) (Int64Value (arg info 1))
                (Int32Value (arg info 2)) (Int32Value (arg info 3))
                (Int32Value (arg info 4)) (Int32Value (arg info 5)) s of
           (result, s') \<Rightarrow> (Returned result, s')))"


subsection \<open>ShowWindowNative\<close>

definition ShowWindowNative :: "'s winapi \<Rightarrow> jsval list \<Rightarrow> 's \<Rightarrow> napi_result \<times> 's" where
  "ShowWindowNative api info s =
     (if length info < 2 \<or> \<not> IsNumber (arg info 0) \<or> \<not> IsBoolean (arg info 1) then
        (ThrownTypeError ''Expected (hwnd: number, show: boolean)'', s)
      else
        (let h = Int64Value (arg info 0);
             show = BooleanValue (arg info 1)
         in if \<not> IsWindow api h s then (Returned (failed ''Invalid window handle''), s)
            else
              (case ShowWindow api h (if show then SW_SHOW else SW_HIDE) s of
                 (success, s1) \<Rightarrow>
                   (let result = result_Set Object_New ''success'' (JBoolean success);
                        result = (if \<not> success
                                  then result_Set result ''error'' (JString (GetLastErrorString api s1))
                                  else result)
                    in (Returned result, s1)))))"

subsection \<open>ResizeWindow\<close>

definition ResizeWindow :: "'s winapi \<Rightarrow> jsval list \<Rightarrow> 's \<Rightarrow> napi_result \<times> 's" where
  "ResizeWindow api info s =
     (if length info < 5 \<or> \<not> IsNumber (arg info 0) \<or> \<not> IsNumber (arg info 1) \<or>
         \<not> IsNumber (arg info 2) \<or> \<not> IsNumber (arg info 3) \<or> \<not> IsNumber (arg info 4) then
        (ThrownTypeError
           ''Expected (hwnd: number, x: number, y: number, width: number, height: number)'', s)
      else
        (let h = Int64Value (arg info 0);
             x = Int32Value (arg info 1);
             y = Int32Value (arg info 2);
             width = Int32Value (arg info 3);
             height = Int32Value (arg info 4)
         in if \<not> IsWindow api h s then (Returned (failed ''Invalid window handle''), s)
            else
              (case SetWindowPos api h HWND_TOP x y width height SWP_SHOWWINDOW s of
                 (success, s1) \<Rightarrow>
                   (let result = result_Set Object_New ''success'' (JBoolean success);
                        result = (if \<not> success
                                  then result_Set result ''error'' (JString (GetLastErrorString api s1))
                                  else result)
                    in (Returned result, s1)))))"

subsection \<open>MoveWindowNative\<close>

definition MoveWindowNative :: "'s winapi \<Rightarrow> jsval list \<Rightarrow> 's \<Rightarrow> napi_result \<times> 's" where
  "MoveWindowNative api info s =
     (if length info < 3 \<or> \<not> IsNumber (arg info 0) \<or> \<not> IsNumber (arg info 1) \<or>
         \<not> IsNumber (arg info 2) then
        (ThrownTypeError ''Expected (hwnd: number, x: number, y: number)'', s)
      else
        (let h = Int64Value (arg info 0);
             x = Int32Value (arg info 1);
             y = Int32Value (arg info 2)
         in if \<not> IsWindow api h s then (Returned (failed ''Invalid window handle''), s)
            else
              (case GetWindowRect api h s of
                 (None, s1) \<Rightarrow>
                   (Returned (failed (''Failed to get window size: '' @ GetLastErrorString api s1)), s1)
               | (Some rect, s1) \<Rightarrow>
                   (let width = right rect - left rect;
                        height = bottom rect - top rect
                    in case SetWindowPos api h HWND_TOP x y width height
                              (SWP_NOSIZE OR SWP_SHOWWINDOW) s1 of
                         (success, s2) \<Rightarrow>
                           (let result = result_Set Object_New ''success'' (JBoolean success);
                                result = (if \<not> success
                                          then result_Set result ''error''
                                                 (JString (GetLastErrorString api s2))
                                          else result)
                            in (Returned result, s2))))))"

subsection \<open>UnparentWindow\<close>

text \<open>The style word that \<^verbatim>\<open>UnparentWindow\<close> writes back (lines 402 to 404).\<close>

definition UnparentWindow_style :: "LONG \<Rightarrow> LONG" where
  "UnparentWindow_style current =
     (let style = current;
          style = style AND NOT WS_CHILD;
          style = style OR (WS_CAPTION OR WS_THICKFRAME OR WS_MINIMIZEBOX OR WS_MAXIMIZEBOX OR WS_SYSMENU)
      in style)"

definition UnparentWindow :: "'s winapi \<Rightarrow> jsval list \<Rightarrow> 's \<Rightarrow> napi_result \<times> 's" where
  "UnparentWindow api info s =
     (if length info < 1 \<or> \<not> IsNumber (arg info 0) then
        (ThrownTypeError ''Expected (hwnd: number)'', s)
      else
        (let h = Int64Value (arg info 0)
         in if \<not> IsWindow api h s then (Returned (failed ''Invalid window handle''), s)
            else
              (let style = UnparentWindow_style (GetWindowLongW api h GWL_STYLE s);
                   s1 = snd (SetWindowLongW api h GWL_STYLE style s)
               in case SetParent api h 0 s1 of
                    (oldParent, s2) \<Rightarrow>
                      (let s3 = snd (SetWindowPos api h 0 0 0 0 0
                                       (SWP_NOMOVE OR SWP_NOSIZE OR SWP_NOZORDER OR SWP_FRAMECHANGED) s2);
                           result = result_Set Object_New ''success''
                                      (JBoolean (oldParent \<noteq> 0 \<or> GetLastError api s3 = 0));
                           result = (if oldParent = 0 \<and> GetLastError api s3 \<noteq> 0
                                     then result_Set result ''error''
                                            (JString (GetLastErrorString api s3))
                                     else result)
                       in (Returned result, s3)))))"

subsection \<open>TerminateProcessNative\<close>

definition TerminateProcessNative :: "'s winapi \<Rightarrow> jsval list \<Rightarrow> 's \<Rightarrow> napi_result \<times> 's" where
  "TerminateProcessNative api info s =
     (if length info < 1 \<or> \<not> IsNumber (arg info 0) then
        (ThrownTypeError ''Expected (processId: number)'', s)
      else
        (let pid = Uint32Value (arg info 0)
         in case OpenProcess api PROCESS_TERMINATE pid s of
              (hProc, s1) \<Rightarrow>
                if hProc = 0 then
                  (Returned (failed (''Failed to open process: '' @ GetLastErrorString api s1)), s1)
                else
                  (case TerminateProcess api hProc 0 s1 of
                     (success, s2) \<Rightarrow>
                       (let s3 = snd (CloseHandle api hProc s2);
                            result = result_Set Object_New ''success'' (JBoolean success);
                            result = (if \<not> success
                                      then result_Set result ''error''
                                             (JString (GetLastErrorString api s3))
                                      else result)
                        in (Returned result, s3)))))"

subsection \<open>GetWindowInfoNative\<close>

text \<open>
  \<^verbatim>\<open>processName.find_last_of("\\/")\<close>: the last position that holds one of the
  given characters, and the file name after it.
\<close>

fun find_last_of_from :: "string \<Rightarrow> char list \<Rightarrow> nat \<Rightarrow> nat option \<Rightarrow> nat option" where
  "find_last_of_from [] cs i found = found"
| "find_last_of_from (c # rest) cs i found =
     find_last_of_from rest cs (Suc i) (if c \<in> set cs then Some i else found)"

definition find_last_of :: "string \<Rightarrow> char list \<Rightarrow> nat option" where
  "find_last_of str cs = find_last_of_from str cs 0 None"

definition file_name_of :: "string \<Rightarrow> string" where
  "file_name_of processPath =
     (case find_last_of processPath [CHR 0x5C, CHR ''/''] of
        None \<Rightarrow> processPath
      | Some pos \<Rightarrow> drop (pos + 1) processPath)"

definition GetWindowInfoNative :: "'s winapi \<Rightarrow> jsval list \<Rightarrow> 's \<Rightarrow> napi_result \<times> 's" where
  "GetWindowInfoNative api info s =
     (if length info < 1 \<or> \<not> IsNumber (arg info 0) then
        (ThrownTypeError ''Expected (hwnd: number)'', s)
      else
        (let h = Int64Value (arg info 0)
         in if \<not> IsWindow api h s then (Returned (failed ''Invalid window handle''), s)
            else
              (let title = take 255 (GetWindowTextA api h s);
                   pid = GetWindowThreadProcessId api h s
               in case OpenProcess api (PROCESS_QUERY_INFORMATION OR PROCESS_VM_READ) pid s of
                    (hProc, s1) \<Rightarrow>
                      (let processName =
                             (if hProc \<noteq> 0 then
                                (case GetModuleFileNameExA api hProc s1 of
                                   Some processPath \<Rightarrow> file_name_of (take (MAX_PATH - 1) processPath)
                                 | None \<Rightarrow> ''Unknown'')
                              else ''Unknown'');
                           s2 = (if hProc \<noteq> 0 then snd (CloseHandle api hProc s1) else s1);
                           result = result_Set Object_New ''success'' (JBoolean True);
                           result = result_Set result ''title'' (JString title);
                           result = result_Set result ''processName'' (JString processName)
                       in (Returned result, s2)))))"

subsection \<open>GetMainWindowAPI\<close>

definition GetMainWindowAPI :: "'s winapi \<Rightarrow> jsval list \<Rightarrow> 's \<Rightarrow> napi_result \<times> 's" where
  "GetMainWindowAPI api info s =
     (if length info < 1 \<or> \<not> IsNumber (arg info 0) then
        (ThrownTypeError ''Expected (processId: number)'', s)
      else
        (let pid = Uint32Value (arg info 0);
             h = FindMainWindow api pid s
         in if h \<noteq> 0 \<and> IsWindow api h s then
              (let result = result_Set Object_New ''success'' (JBoolean True);
                   result = result_Set result ''hwnd'' (JNumber (sint h))
               in (Returned result, s))
            else (Returned (result_Set Object_New ''success'' (JBoolean False)), s)))"

subsection \<open>The exported operations\<close>

text \<open>
  \<^verbatim>\<open>Init\<close> exports the nine functions of the window manager under their script
  names; \<open>invoke\<close> is a call of an exported name from the script side. The four
  functions of the application discovery that \<^verbatim>\<open>Init\<close> exports as well are defined
  in another file; they return lists and strings, not results, and are no part
  of the window manager.
\<close>

datatype operation =
  launchApplication | embedWindow | showWindow | resizeWindow | moveWindow |
  unparentWindow | terminateProcess | getWindowInfo | getMainWindow

fun invoke :: "'s winapi \<Rightarrow> operation \<Rightarrow> jsval list \<Rightarrow> 's \<Rightarrow> napi_result \<times> 's" where
  "invoke api launchApplication = LaunchApplication api"
| "invoke api embedWindow = EmbedWindow api"
| "invoke api showWindow = ShowWindowNative api"
| "invoke api resizeWindow = ResizeWindow api"
| "invoke api moveWindow = MoveWindowNative api"
| "invoke api unparentWindow = UnparentWindow api"
| "invoke api terminateProcess = TerminateProcessNative api"
| "invoke api getWindowInfo = GetWindowInfoNative api"
| "invoke api getMainWindow = GetMainWindowAPI api"



section \<open>A mock windowing layer\<close>

text \<open>
  Modelled from the spec: the cooperative synthetic windows and the mock
  windowing layer that the testable properties of the spec refer to. The
  platform itself is not part of the repository. The mock keeps, for every live
  window, what the module reads and writes (owning process, class, title, style
  words, parent, rectangle) and behaves as the platform documents its calls:
  a style word is stored as written; showing a window sets its visible bit,
  hiding clears it, and the call returns whether the window was visible before;
  reparenting sets the parent, leaves the style words alone and returns the
  previous parent; positioning keeps the size under the no-size flag and the
  position under the no-move flag, sets the visible bit under the show-window
  flag and raises the window unless the no-z-order flag is given. A failing call
  sets the last-error code, a succeeding one leaves it alone. A window whose
  \<open>m_refuses\<close> is not 0 belongs to an application that rejects reparenting with
  that error code. Every call that is not a plain read is appended to \<open>calls\<close>.
\<close>

record mwindow =
  m_pid :: DWORD
  m_class :: string
  m_title :: string
  m_style :: LONG
  m_exstyle :: LONG
  m_parent :: HWND
  m_rect :: RECT
  m_refuses :: DWORD

datatype oscall =
  Call_ShowWindow HWND int
| Call_BringWindowToTop HWND
| Call_SetForegroundWindow HWND
| Call_SetParent HWND HWND
| Call_SetWindowLongW HWND int LONG
| Call_SetWindowPos HWND HWND cint cint cint cint UINT
| Call_InvalidateRect HWND
| Call_UpdateWindow HWND
| Call_RedrawWindow HWND UINT
| Call_CreateProcessA string
| Call_OpenProcess DWORD
| Call_TerminateProcess HANDLE
| Call_CloseHandle HANDLE

record mockos =
  windows :: "HWND \<rightharpoonup> mwindow"
  zorder :: "HWND list"
  last_error :: DWORD
  calls :: "oscall list"
  processes :: "DWORD \<rightharpoonup> string"
  programs :: "string list"
  next_pid :: DWORD

definition ERROR_FILE_NOT_FOUND :: DWORD where "ERROR_FILE_NOT_FOUND = 2"
definition ERROR_INVALID_HANDLE :: DWORD where "ERROR_INVALID_HANDLE = 6"
definition ERROR_INVALID_PARAMETER :: DWORD where "ERROR_INVALID_PARAMETER = 87"
definition ERROR_INVALID_WINDOW_HANDLE :: DWORD where "ERROR_INVALID_WINDOW_HANDLE = 1400"
definition ERROR_INVALID_INDEX :: DWORD where "ERROR_INVALID_INDEX = 1413"

definition logged :: "oscall \<Rightarrow> mockos \<Rightarrow> mockos" where
  "logged c s = s\<lparr>calls := calls s @ [c]\<rparr>"

definition failing :: "DWORD \<Rightarrow> oscall \<Rightarrow> mockos \<Rightarrow> mockos" where
  "failing e c s = s\<lparr>last_error := e, calls := calls s @ [c]\<rparr>"

definition put_window :: "HWND \<Rightarrow> mwindow \<Rightarrow> oscall \<Rightarrow> mockos \<Rightarrow> mockos" where
  "put_window h w c s = s\<lparr>windows := (windows s)(h \<mapsto> w), calls := calls s @ [c]\<rparr>"

definition raised :: "HWND \<Rightarrow> mockos \<Rightarrow> mockos" where
  "raised h s = s\<lparr>zorder := h # removeAll h (zorder s)\<rparr>"

definition m_IsWindow :: "HWND \<Rightarrow> mockos \<Rightarrow> bool" where
  "m_IsWindow h s \<longleftrightarrow> windows s h \<noteq> None"

definition m_IsWindowVisible :: "HWND \<Rightarrow> mockos \<Rightarrow> bool" where
  "m_IsWindowVisible h s =
     (case windows s h of None \<Rightarrow> False | Some w \<Rightarrow> m_style w AND WS_VISIBLE \<noteq> 0)"

definition m_GetParent :: "HWND \<Rightarrow> mockos \<Rightarrow> HWND" where
  "m_GetParent h s = (case windows s h of None \<Rightarrow> 0 | Some w \<Rightarrow> m_parent w)"

definition m_GetWindowThreadProcessId :: "HWND \<Rightarrow> mockos \<Rightarrow> DWORD" where
  "m_GetWindowThreadProcessId h s = (case windows s h of None \<Rightarrow> 0 | Some w \<Rightarrow> m_pid w)"

definition m_GetClassNameA :: "HWND \<Rightarrow> mockos \<Rightarrow> string" where
  "m_GetClassNameA h s = (case windows s h of None \<Rightarrow> [] | Some w \<Rightarrow> m_class w)"

definition m_GetWindowTextA :: "HWND \<Rightarrow> mockos \<Rightarrow> string" where
  "m_GetWindowTextA h s = (case windows s h of None \<Rightarrow> [] | Some w \<Rightarrow> m_title w)"

definition m_GetWindowLongW :: "HWND \<Rightarrow> int \<Rightarrow> mockos \<Rightarrow> LONG" where
  "m_GetWindowLongW h idx s =
     (case windows s h of
        None \<Rightarrow> 0
      | Some w \<Rightarrow> if idx = GWL_STYLE then m_style w
                  else if idx = GWL_EXSTYLE then m_exstyle w else 0)"

definition m_GetModuleFileNameExA :: "HANDLE \<Rightarrow> mockos \<Rightarrow> string option" where
  "m_GetModuleFileNameExA hp s = processes s (ucast hp)"

definition m_FormatMessageA :: "DWORD \<Rightarrow> string" where
  "m_FormatMessageA e =
     (if e = ERROR_FILE_NOT_FOUND then ''The system cannot find the file specified.''
      else if e = 5 then ''Access is denied.''
      else if e = ERROR_INVALID_HANDLE then ''The handle is invalid.''
      else if e = ERROR_INVALID_PARAMETER then ''The parameter is incorrect.''
      else if e = ERROR_INVALID_WINDOW_HANDLE then ''Invalid window handle.''
      else if e = ERROR_INVALID_INDEX then ''Invalid index.''
      else [])"

definition m_EnumWindows :: "mockos \<Rightarrow> HWND list" where
  "m_EnumWindows s =
     filter (\<lambda>h. case windows s h of None \<Rightarrow> False | Some w \<Rightarrow> m_parent w = 0) (zorder s)"

definition m_ShowWindow :: "HWND \<Rightarrow> int \<Rightarrow> mockos \<Rightarrow> bool \<times> mockos" where
  "m_ShowWindow h cmd s =
     (case windows s h of
        None \<Rightarrow> (False, failing ERROR_INVALID_WINDOW_HANDLE (Call_ShowWindow h cmd) s)
      | Some w \<Rightarrow>
          (m_style w AND WS_VISIBLE \<noteq> 0,
           put_window h
             (w\<lparr>m_style := (if cmd = SW_HIDE then m_style w AND NOT WS_VISIBLE
                              else m_style w OR WS_VISIBLE)\<rparr>)
             (Call_ShowWindow h cmd) s))"

definition m_BringWindowToTop :: "HWND \<Rightarrow> mockos \<Rightarrow> bool \<times> mockos" where
  "m_BringWindowToTop h s =
     (case windows s h of
        None \<Rightarrow> (False, failing ERROR_INVALID_WINDOW_HANDLE (Call_BringWindowToTop h) s)
      | Some w \<Rightarrow> (True, raised h (logged (Call_BringWindowToTop h) s)))"

definition m_SetForegroundWindow :: "HWND \<Rightarrow> mockos \<Rightarrow> bool \<times> mockos" where
  "m_SetForegroundWindow h s = (windows s h \<noteq> None, logged (Call_SetForegroundWindow h) s)"

definition m_SetParent :: "HWND \<Rightarrow> HWND \<Rightarrow> mockos \<Rightarrow> HWND \<times> mockos" where
  "m_SetParent h p s =
     (case windows s h of
        None \<Rightarrow> (0, failing ERROR_INVALID_WINDOW_HANDLE (Call_SetParent h p) s)
      | Some w \<Rightarrow>
          if m_refuses w \<noteq> 0 then (0, failing (m_refuses w) (Call_SetParent h p) s)
          else if p \<noteq> 0 \<and> windows s p = None then
            (0, failing ERROR_INVALID_WINDOW_HANDLE (Call_SetParent h p) s)
          else (m_parent w, put_window h (w\<lparr>m_parent := p\<rparr>) (Call_SetParent h p) s))"

definition m_SetWindowLongW :: "HWND \<Rightarrow> int \<Rightarrow> LONG \<Rightarrow> mockos \<Rightarrow> LONG \<times> mockos" where
  "m_SetWindowLongW h idx v s =
     (case windows s h of
        None \<Rightarrow> (0, failing ERROR_INVALID_WINDOW_HANDLE (Call_SetWindowLongW h idx v) s)
      | Some w \<Rightarrow>
          if idx = GWL_STYLE then
            (m_style w, put_window h (w\<lparr>m_style := v\<rparr>) (Call_SetWindowLongW h idx v) s)
          else if idx = GWL_EXSTYLE then
            (m_exstyle w, put_window h (w\<lparr>m_exstyle := v\<rparr>) (Call_SetWindowLongW h idx v) s)
          else (0, failing ERROR_INVALID_INDEX (Call_SetWindowLongW h idx v) s))"

definition m_SetWindowPos ::
  "HWND \<Rightarrow> HWND \<Rightarrow> cint \<Rightarrow> cint \<Rightarrow> cint \<Rightarrow> cint \<Rightarrow> UINT \<Rightarrow> mockos \<Rightarrow> bool \<times> mockos" where
  "m_SetWindowPos h after x y cx cy flags s =
     (case windows s h of
        None \<Rightarrow> (False, failing ERROR_INVALID_WINDOW_HANDLE (Call_SetWindowPos h after x y cx cy flags) s)
      | Some w \<Rightarrow>
          (let r = m_rect w;
               width = (if flags AND SWP_NOSIZE \<noteq> 0 then right r - left r else cx);
               height = (if flags AND SWP_NOSIZE \<noteq> 0 then bottom r - top r else cy);
               l = (if flags AND SWP_NOMOVE \<noteq> 0 then left r else x);
               t = (if flags AND SWP_NOMOVE \<noteq> 0 then top r else y);
               w' = w\<lparr>m_rect := \<lparr>left = l, top = t, right = l + width, bottom = t + height\<rparr>,
                      m_style := (if flags AND SWP_SHOWWINDOW \<noteq> 0 then m_style w OR WS_VISIBLE
                                  else m_style w)\<rparr>;
               s' = put_window h w' (Call_SetWindowPos h after x y cx cy flags) s
           in (True, if flags AND SWP_NOZORDER = 0 \<and> after = HWND_TOP then raised h s' else s')))"

definition m_InvalidateRect :: "HWND \<Rightarrow> bool \<Rightarrow> mockos \<Rightarrow> bool \<times> mockos" where
  "m_InvalidateRect h erase s =
     (case windows s h of
        None \<Rightarrow> (False, failing ERROR_INVALID_WINDOW_HANDLE (Call_InvalidateRect h) s)
      | Some w \<Rightarrow> (True, logged (Call_InvalidateRect h) s))"

definition m_UpdateWindow :: "HWND \<Rightarrow> mockos \<Rightarrow> bool \<times> mockos" where
  "m_UpdateWindow h s =
     (case windows s h of
        None \<Rightarrow> (False, failing ERROR_INVALID_WINDOW_HANDLE (Call_UpdateWindow h) s)
      | Some w \<Rightarrow> (True, logged (Call_UpdateWindow h) s))"

definition m_RedrawWindow :: "HWND \<Rightarrow> UINT \<Rightarrow> mockos \<Rightarrow> bool \<times> mockos" where
  "m_RedrawWindow h flags s =
     (case windows s h of
        None \<Rightarrow> (False, failing ERROR_INVALID_WINDOW_HANDLE (Call_RedrawWindow h flags) s)
      | Some w \<Rightarrow> (True, logged (Call_RedrawWindow h flags) s))"

definition m_GetWindowRect :: "HWND \<Rightarrow> mockos \<Rightarrow> RECT option \<times> mockos" where
  "m_GetWindowRect h s =
     (case windows s h of
        None \<Rightarrow> (None, s\<lparr>last_error := ERROR_INVALID_WINDOW_HANDLE\<rparr>)
      | Some w \<Rightarrow> (Some (m_rect w), s))"

definition m_CreateProcessA :: "string \<Rightarrow> mockos \<Rightarrow> PROCESS_INFORMATION option \<times> mockos" where
  "m_CreateProcessA exePath s =
     (if exePath \<in> set (programs s) then
        (let pid = next_pid s
         in (Some \<lparr>hProcess = ucast pid, hThread = ucast pid + 1, dwProcessId = pid, dwThreadId = pid + 1\<rparr>,
             logged (Call_CreateProcessA exePath)
               (s\<lparr>processes := (processes s)(pid \<mapsto> exePath), next_pid := pid + 4\<rparr>)))
      else (None, failing ERROR_FILE_NOT_FOUND (Call_CreateProcessA exePath) s))"

definition m_OpenProcess :: "DWORD \<Rightarrow> DWORD \<Rightarrow> mockos \<Rightarrow> HANDLE \<times> mockos" where
  "m_OpenProcess access pid s =
     (if pid \<noteq> 0 \<and> processes s pid \<noteq> None then (ucast pid, logged (Call_OpenProcess pid) s)
      else (0, failing ERROR_INVALID_PARAMETER (Call_OpenProcess pid) s))"

definition m_TerminateProcess :: "HANDLE \<Rightarrow> UINT \<Rightarrow> mockos \<Rightarrow> bool \<times> mockos" where
  "m_TerminateProcess hp code s =
     (if processes s (ucast hp) \<noteq> None then
        (True,
         logged (Call_TerminateProcess hp)
           (s\<lparr>processes := (processes s)(ucast hp := None),
              windows := (\<lambda>h. case windows s h of
                                 None \<Rightarrow> None
                               | Some w \<Rightarrow> if m_pid w = ucast hp then None else Some w)\<rparr>))
      else (False, failing ERROR_INVALID_HANDLE (Call_TerminateProcess hp) s))"

definition m_CloseHandle :: "HANDLE \<Rightarrow> mockos \<Rightarrow> bool \<times> mockos" where
  "m_CloseHandle hp s = (True, logged (Call_CloseHandle hp) s)"

definition mock :: "mockos winapi" where
  "mock =
     \<lparr>IsWindow = m_IsWindow, IsWindowVisible = m_IsWindowVisible, GetParent = m_GetParent,
      GetWindowThreadProcessId = m_GetWindowThreadProcessId, GetClassNameA = m_GetClassNameA,
      GetWindowTextA = m_GetWindowTextA, GetWindowLongW = m_GetWindowLongW,
      GetModuleFileNameExA = m_GetModuleFileNameExA, GetLastError = last_error,
      FormatMessageA = m_FormatMessageA, EnumWindows = m_EnumWindows,
      ShowWindow = m_ShowWindow, BringWindowToTop = m_BringWindowToTop,
      SetForegroundWindow = m_SetForegroundWindow, SetParent = m_SetParent,
      SetWindowLongW = m_SetWindowLongW, SetWindowPos = m_SetWindowPos,
      InvalidateRect = m_InvalidateRect, UpdateWindow = m_UpdateWindow,
      RedrawWindow = m_RedrawWindow, GetWindowRect = m_GetWindowRect,
      CreateProcessA = m_CreateProcessA, OpenProcess = m_OpenProcess,
      TerminateProcess = m_TerminateProcess, CloseHandle = m_CloseHandle\<rparr>"


section \<open>Example windows\<close>

text \<open>
  A desktop of the mock: a borderless popup palette and an overlapped main
  window of one application, the frame of the host that serves as container,
  two windows whose applications reject reparenting, and a hidden splash
  window that is a tool window.
\<close>

definition popup_window :: mwindow where
  "popup_window =
     \<lparr>m_pid = 4242, m_class = ''ToolPalette'', m_title = ''Palette'', m_style = 0x90000000,
      m_exstyle = 0x00000101, m_parent = 0,
      m_rect = \<lparr>left = 10, top = 20, right = 310, bottom = 220\<rparr>, m_refuses = 0\<rparr>"

definition container_window :: mwindow where
  "container_window =
     \<lparr>m_pid = 77, m_class = ''HostFrame'', m_title = ''Host'', m_style = 0x16CF0000,
      m_exstyle = 0, m_parent = 0,
      m_rect = \<lparr>left = 0, top = 0, right = 800, bottom = 600\<rparr>, m_refuses = 0\<rparr>"

definition main_window :: mwindow where
  "main_window =
     \<lparr>m_pid = 4242, m_class = ''EditorFrame'', m_title = ''Editor'', m_style = 0x10CF0000,
      m_exstyle = 0x00000100, m_parent = 0,
      m_rect = \<lparr>left = 50, top = 60, right = 690, bottom = 540\<rparr>, m_refuses = 0\<rparr>"

definition guarded_window :: mwindow where
  "guarded_window =
     \<lparr>m_pid = 900, m_class = ''SecureApp'', m_title = ''Vault'', m_style = 0x10CF0000,
      m_exstyle = 0, m_parent = 0,
      m_rect = \<lparr>left = 0, top = 0, right = 200, bottom = 100\<rparr>,
      m_refuses = ERROR_INVALID_PARAMETER\<rparr>"

definition stubborn_window :: mwindow where
  "stubborn_window =
     \<lparr>m_pid = 901, m_class = ''ElevatedApp'', m_title = ''Admin'', m_style = 0x10CF0000,
      m_exstyle = 0, m_parent = 0,
      m_rect = \<lparr>left = 0, top = 0, right = 200, bottom = 100\<rparr>, m_refuses = 5\<rparr>"

definition hidden_window :: mwindow where
  "hidden_window =
     \<lparr>m_pid = 4300, m_class = ''Splash'', m_title = [], m_style = 0x00CF0000,
      m_exstyle = 0x00000080, m_parent = 0,
      m_rect = \<lparr>left = 5, top = 5, right = 105, bottom = 55\<rparr>, m_refuses = 0\<rparr>"

definition desktop :: mockos where
  "desktop =
     \<lparr>windows = [0x100 \<mapsto> popup_window, 0x200 \<mapsto> container_window, 0x300 \<mapsto> main_window,
                 0x400 \<mapsto> guarded_window, 0x500 \<mapsto> stubborn_window, 0x600 \<mapsto> hidden_window],
      zorder = [0x600, 0x100, 0x300, 0x200, 0x400, 0x500], last_error = 0, calls = [],
      processes = [4242 \<mapsto> ''C:/tools/editor.exe'', 77 \<mapsto> ''C:/host/host.exe''],
      programs = [''C:/tools/editor.exe''], next_pid = 5000\<rparr>"

section \<open>The resolver as the spec words it\<close>

text \<open>
  The spec describes the resolver as a scan over the windows of the process
  with the shell classes left out: the first window of rank 1 (visible, no
  parent, and a title or a caption or border bit), else the first window that
  is not a tool window, else nothing. These definitions follow the spec; the
  theorems below compare them with \<open>FindMainWindow\<close> and \<open>GetMainWindowAPI\<close>.
\<close>

definition process_windows :: "'s winapi \<Rightarrow> DWORD \<Rightarrow> 's \<Rightarrow> HWND list" where
  "process_windows api pid s =
     filter (\<lambda>h. GetWindowThreadProcessId api h s = pid \<and> \<not> is_system_class (GetClassNameA api h s))
       (EnumWindows api s)"

definition rank1 :: "'s winapi \<Rightarrow> 's \<Rightarrow> HWND \<Rightarrow> bool" where
  "rank1 api s h \<longleftrightarrow>
     IsWindowVisible api h s \<and> GetParent api h s = 0 \<and>
     (GetWindowTextA api h s \<noteq> [] \<or> GetWindowLongW api h GWL_STYLE s AND WS_CAPTION \<noteq> 0 \<or>
      GetWindowLongW api h GWL_STYLE s AND WS_BORDER \<noteq> 0)"

definition not_tool_window :: "'s winapi \<Rightarrow> 's \<Rightarrow> HWND \<Rightarrow> bool" where
  "not_tool_window api s h \<longleftrightarrow> GetWindowLongW api h GWL_EXSTYLE s AND WS_EX_TOOLWINDOW = 0"

definition resolveMainWindow_spec :: "'s winapi \<Rightarrow> DWORD \<Rightarrow> 's \<Rightarrow> HWND option" where
  "resolveMainWindow_spec api pid s =
     (case find (rank1 api s) (process_windows api pid s) of
        Some h \<Rightarrow> Some h
      | None \<Rightarrow> find (not_tool_window api s) (process_windows api pid s))"

text \<open>The handle that \<^verbatim>\<open>FindMainWindow\<close> returns from the data of the enumeration.\<close>

definition chosen :: "EnumData \<Rightarrow> HWND" where
  "chosen d = (if hwnd d \<noteq> 0 then hwnd d else bestHwnd d)"

section \<open>The arguments an operation expects\<close>

text \<open>
  Each exported function starts with a check of the number and the types of its
  arguments; \<open>expected_arguments\<close> is that check, passed.
\<close>

fun expected_arguments :: "operation \<Rightarrow> jsval list \<Rightarrow> bool" where
  "expected_arguments launchApplication info \<longleftrightarrow>
     \<not> (length info < 2 \<or> \<not> IsString (arg info 0) \<or> \<not> IsNumber (arg info 1))"
| "expected_arguments embedWindow info \<longleftrightarrow>
     \<not> (length info < 6 \<or> \<not> IsNumber (arg info 0) \<or> \<not> IsNumber (arg info 1) \<or>
        \<not> IsNumber (arg info 2) \<or> \<not> IsNumber (arg info 3) \<or> \<not> IsNumber (arg info 4) \<or>
        \<not> IsNumber (arg info 5))"
| "expected_arguments showWindow info \<longleftrightarrow>
     \<not> (length info < 2 \<or> \<not> IsNumber (arg info 0) \<or> \<not> IsBoolean (arg info 1))"
| "expected_arguments resizeWindow info \<longleftrightarrow>
     \<not> (length info < 5 \<or> \<not> IsNumber (arg info 0) \<or> \<not> IsNumber (arg info 1) \<or>
        \<not> IsNumber (arg info 2) \<or> \<not> IsNumber (arg info 3) \<or> \<not> IsNumber (arg info 4))"
| "expected_arguments moveWindow info \<longleftrightarrow>
     \<not> (length info < 3 \<or> \<not> IsNumber (arg info 0) \<or> \<not> IsNumber (arg info 1) \<or>
        \<not> IsNumber (arg info 2))"
| "expected_arguments unparentWindow info \<longleftrightarrow> \<not> (length info < 1 \<or> \<not> IsNumber (arg info 0))"
| "expected_arguments terminateProcess info \<longleftrightarrow> \<not> (length info < 1 \<or> \<not> IsNumber (arg info 0))"
| "expected_arguments getWindowInfo info \<longleftrightarrow> \<not> (length info < 1 \<or> \<not> IsNumber (arg info 0))"
| "expected_arguments getMainWindow info \<longleftrightarrow> \<not> (length info < 1 \<or> \<not> IsNumber (arg info 0))"


section \<open>Properties\<close>

subsection \<open>The bits of the style masks\<close>

lemma word_neq_0_bit: "(w::'a::len word) \<noteq> 0 \<longleftrightarrow> (\<exists>n. bit w n)"
  by (auto simp add: bit_eq_iff dest: bit_imp_le_length)

lemma bit_WS_POPUP: "bit WS_POPUP n \<longleftrightarrow> n = 31"
proof -
  have e: "WS_POPUP = 2 ^ 31" by (simp add: WS_POPUP_def)
  show ?thesis unfolding e bit_exp_iff by auto
qed
lemma bit_WS_CHILD: "bit WS_CHILD n \<longleftrightarrow> n = 30"
proof -
  have e: "WS_CHILD = 2 ^ 30" by (simp add: WS_CHILD_def)
  show ?thesis unfolding e bit_exp_iff by auto
qed
lemma bit_WS_VISIBLE: "bit WS_VISIBLE n \<longleftrightarrow> n = 28"
proof -
  have e: "WS_VISIBLE = 2 ^ 28" by (simp add: WS_VISIBLE_def)
  show ?thesis unfolding e bit_exp_iff by auto
qed
lemma bit_WS_CAPTION: "bit WS_CAPTION n \<longleftrightarrow> n = 22 \<or> n = 23"
proof -
  have e: "WS_CAPTION = 2 ^ 22 OR 2 ^ 23" by (simp add: WS_CAPTION_def)
  show ?thesis unfolding e bit_or_iff bit_exp_iff by auto
qed
lemma bit_WS_BORDER: "bit WS_BORDER n \<longleftrightarrow> n = 23"
proof -
  have e: "WS_BORDER = 2 ^ 23" by (simp add: WS_BORDER_def)
  show ?thesis unfolding e bit_exp_iff by auto
qed
lemma bit_WS_DLGFRAME: "bit WS_DLGFRAME n \<longleftrightarrow> n = 22"
proof -
  have e: "WS_DLGFRAME = 2 ^ 22" by (simp add: WS_DLGFRAME_def)
  show ?thesis unfolding e bit_exp_iff by auto
qed
lemma bit_WS_SYSMENU: "bit WS_SYSMENU n \<longleftrightarrow> n = 19"
proof -
  have e: "WS_SYSMENU = 2 ^ 19" by (simp add: WS_SYSMENU_def)
  show ?thesis unfolding e bit_exp_iff by auto
qed
lemma bit_WS_THICKFRAME: "bit WS_THICKFRAME n \<longleftrightarrow> n = 18"
proof -
  have e: "WS_THICKFRAME = 2 ^ 18" by (simp add: WS_THICKFRAME_def)
  show ?thesis unfolding e bit_exp_iff by auto
qed
lemma bit_WS_MINIMIZEBOX: "bit WS_MINIMIZEBOX n \<longleftrightarrow> n = 17"
proof -
  have e: "WS_MINIMIZEBOX = 2 ^ 17" by (simp add: WS_MINIMIZEBOX_def)
  show ?thesis unfolding e bit_exp_iff by auto
qed
lemma bit_WS_MAXIMIZEBOX: "bit WS_MAXIMIZEBOX n \<longleftrightarrow> n = 16"
proof -
  have e: "WS_MAXIMIZEBOX = 2 ^ 16" by (simp add: WS_MAXIMIZEBOX_def)
  show ?thesis unfolding e bit_exp_iff by auto
qed
lemma bit_WS_EX_DLGMODALFRAME: "bit WS_EX_DLGMODALFRAME n \<longleftrightarrow> n = 0"
proof -
  have e: "WS_EX_DLGMODALFRAME = 2 ^ 0" by (simp add: WS_EX_DLGMODALFRAME_def)
  show ?thesis unfolding e bit_exp_iff by auto
qed
lemma bit_WS_EX_WINDOWEDGE: "bit WS_EX_WINDOWEDGE n \<longleftrightarrow> n = 8"
proof -
  have e: "WS_EX_WINDOWEDGE = 2 ^ 8" by (simp add: WS_EX_WINDOWEDGE_def)
  show ?thesis unfolding e bit_exp_iff by auto
qed
lemma bit_WS_EX_CLIENTEDGE: "bit WS_EX_CLIENTEDGE n \<longleftrightarrow> n = 9"
proof -
  have e: "WS_EX_CLIENTEDGE = 2 ^ 9" by (simp add: WS_EX_CLIENTEDGE_def)
  show ?thesis unfolding e bit_exp_iff by auto
qed
lemma bit_WS_EX_STATICEDGE: "bit WS_EX_STATICEDGE n \<longleftrightarrow> n = 17"
proof -
  have e: "WS_EX_STATICEDGE = 2 ^ 17" by (simp add: WS_EX_STATICEDGE_def)
  show ?thesis unfolding e bit_exp_iff by auto
qed

lemmas bit_WS =
  bit_WS_POPUP bit_WS_CHILD bit_WS_VISIBLE bit_WS_CAPTION bit_WS_BORDER bit_WS_DLGFRAME
  bit_WS_SYSMENU bit_WS_THICKFRAME bit_WS_MINIMIZEBOX bit_WS_MAXIMIZEBOX
  bit_WS_EX_DLGMODALFRAME bit_WS_EX_WINDOWEDGE bit_WS_EX_CLIENTEDGE bit_WS_EX_STATICEDGE

lemma bit_EmbedWindow_style:
  "bit (EmbedWindow_style st) n \<longleftrightarrow>
     n = 30 \<or> n = 28 \<or> n = 23 \<or> (n = 22 \<and> (bit st 22 \<or> bit st 23)) \<or>
     (bit st n \<and> n \<notin> {16, 17, 18, 19, 22, 31})"
  by (auto simp add: EmbedWindow_style_def Let_def word_neq_0_bit bit_simps bit_WS
      dest: bit_imp_le_length)

lemma bit_UnparentWindow_style:
  "bit (UnparentWindow_style st) n \<longleftrightarrow>
     n \<in> {16, 17, 18, 19, 22, 23} \<or> (bit st n \<and> n \<noteq> 30)"
  by (auto simp add: UnparentWindow_style_def Let_def bit_simps bit_WS dest: bit_imp_le_length)

subsection \<open>The module on the mock windowing layer\<close>

lemmas mock_ops =
  m_IsWindow_def m_GetWindowLongW_def m_ShowWindow_def m_BringWindowToTop_def
  m_SetForegroundWindow_def m_SetParent_def m_SetWindowLongW_def m_SetWindowPos_def
  m_InvalidateRect_def m_UpdateWindow_def m_RedrawWindow_def m_GetWindowRect_def
  put_window_def logged_def failing_def raised_def

lemmas flag_defs =
  SWP_NOSIZE_def SWP_NOMOVE_def SWP_NOZORDER_def SWP_FRAMECHANGED_def SWP_SHOWWINDOW_def
  HWND_TOP_def GWL_STYLE_def GWL_EXSTYLE_def SW_SHOW_def SW_HIDE_def
  ERROR_INVALID_WINDOW_HANDLE_def ERROR_INVALID_INDEX_def

lemma mock_sel [simp]:
  "IsWindow mock = m_IsWindow" "GetWindowLongW mock = m_GetWindowLongW"
  "GetLastError mock = last_error" "ShowWindow mock = m_ShowWindow"
  "BringWindowToTop mock = m_BringWindowToTop" "SetForegroundWindow mock = m_SetForegroundWindow"
  "SetParent mock = m_SetParent" "SetWindowLongW mock = m_SetWindowLongW"
  "SetWindowPos mock = m_SetWindowPos" "InvalidateRect mock = m_InvalidateRect"
  "UpdateWindow mock = m_UpdateWindow" "RedrawWindow mock = m_RedrawWindow"
  "GetWindowRect mock = m_GetWindowRect" "FormatMessageA mock = m_FormatMessageA"
  by (simp_all add: mock_def)

lemma mock_embed_success:
  assumes "EmbedWindow_body mock h p x y cx cy s = (r, s1)" and "r ''success'' = Some (JBoolean True)"
  shows "\<exists>w. windows s h = Some w \<and> m_refuses w = 0 \<and> (p \<noteq> 0 \<longrightarrow> windows s p \<noteq> None) \<and>
           (m_parent w = 0 \<longrightarrow> last_error s = 0) \<and> last_error s1 = last_error s \<and>
           windows s1 = (windows s)(h \<mapsto>
              w\<lparr>m_style := EmbedWindow_style (m_style w OR WS_VISIBLE) OR WS_VISIBLE,
                m_exstyle := EmbedWindow_exStyle (m_exstyle w),
                m_parent := p,
                m_rect := \<lparr>left = x, top = y, right = x + cx, bottom = y + cy\<rparr>\<rparr>)"
  using assms
  by (auto simp add: EmbedWindow_body_def Let_def mock_ops flag_defs failed_def result_Set_def Object_New_def
      split: option.splits if_splits prod.splits)


lemma mock_unparent:
  assumes "windows s h = Some w" and "m_refuses w = 0" and "word_of_int n = h"
  shows "\<exists>s2. UnparentWindow mock [JNumber n] s =
           (Returned ((if m_parent w \<noteq> 0 \<or> last_error s = 0
                       then Object_New(''success'' \<mapsto> JBoolean True)
                       else failed (GetLastErrorString mock s))), s2) \<and>
         last_error s2 = last_error s \<and>
         windows s2 = (windows s)(h \<mapsto> w\<lparr>m_style := UnparentWindow_style (m_style w), m_parent := 0\<rparr>)"
  using assms
  by (auto simp add: UnparentWindow_def arg_def Let_def mock_ops flag_defs failed_def result_Set_def Object_New_def
      GetLastErrorString_def
      split: option.splits if_splits prod.splits)

lemma restored_iff:
  fixes st a b :: "'a::len word"
  assumes "a AND b = 0"
  shows "(st AND NOT a) OR b = st \<longleftrightarrow> st AND b = b \<and> st AND a = 0"
proof -
  have ab: "\<not> (bit a n \<and> bit b n)" for n
  proof -
    have "bit (a AND b) n = bit (0::'a word) n" using assms by simp
    then show ?thesis by (simp add: bit_and_iff)
  qed
  show ?thesis
    using ab by (auto simp add: bit_eq_iff bit_simps)
qed

lemma detach_after_shown_embed_style:
  "UnparentWindow_style (EmbedWindow_style (st OR WS_VISIBLE) OR WS_VISIBLE) =
     (st AND NOT (WS_POPUP OR WS_CHILD)) OR
     (WS_VISIBLE OR WS_CAPTION OR WS_THICKFRAME OR WS_MINIMIZEBOX OR WS_MAXIMIZEBOX OR WS_SYSMENU)"
  by (rule bit_word_eqI)
     (auto simp add: bit_UnparentWindow_style bit_EmbedWindow_style bit_simps bit_WS)

lemma style_masks_disjoint:
  "(WS_POPUP OR WS_CHILD) AND
     (WS_VISIBLE OR WS_CAPTION OR WS_THICKFRAME OR WS_MINIMIZEBOX OR WS_MAXIMIZEBOX OR WS_SYSMENU) = 0"
  by (rule bit_word_eqI) (auto simp add: bit_simps bit_WS)

lemmas style_defs =
  WS_POPUP_def WS_CHILD_def WS_VISIBLE_def WS_CAPTION_def WS_BORDER_def WS_DLGFRAME_def
  WS_SYSMENU_def WS_THICKFRAME_def WS_MINIMIZEBOX_def WS_MAXIMIZEBOX_def
  WS_EX_DLGMODALFRAME_def WS_EX_TOOLWINDOW_def WS_EX_WINDOWEDGE_def WS_EX_CLIENTEDGE_def
  WS_EX_STATICEDGE_def

lemmas eval_defs =
  EmbedWindow_def EmbedWindow_body_def UnparentWindow_def arg_def Let_def mock_ops flag_defs
  failed_def result_Set_def Object_New_def GetLastErrorString_def
  EmbedWindow_style_def EmbedWindow_exStyle_def UnparentWindow_style_def style_defs
  RDW_ALLCHILDREN_def RDW_UPDATENOW_def
  desktop_def popup_window_def container_window_def main_window_def
  guarded_window_def stubborn_window_def hidden_window_def
  ERROR_INVALID_PARAMETER_def ERROR_INVALID_HANDLE_def ERROR_FILE_NOT_FOUND_def


subsection \<open>The enumeration\<close>

lemma is_system_class_take: "is_system_class (take 255 c) \<longleftrightarrow> is_system_class c"
proof (cases "length c \<le> 255")
  case True
  then show ?thesis by simp
next
  case False
  then have l: "length (take 255 c) = 255" by simp
  have "\<not> is_system_class (take 255 c)"
    using l by (auto simp add: is_system_class_def dest!: arg_cong [where f = length])
  moreover have "\<not> is_system_class c"
    using False by (auto simp add: is_system_class_def dest!: arg_cong [where f = length])
  ultimately show ?thesis by simp
qed

lemma EnumWindowsProc_cases:
  "EnumWindowsProc api s h data =
     (if GetWindowThreadProcessId api h s = processId data \<and> \<not> is_system_class (GetClassNameA api h s)
      then (if rank1 api s h then (False, data\<lparr>hwnd := h\<rparr>)
            else if bestHwnd data = 0 \<and> IsWindow api h s \<and> not_tool_window api s h
                 then (True, data\<lparr>bestHwnd := h\<rparr>)
                 else (True, data))
      else (True, data))"
  by (auto simp add: EnumWindowsProc_def Let_def is_system_class_take rank1_def not_tool_window_def)

lemma enumerate_chosen:
  assumes "0 \<notin> set ws" and "\<forall>h\<in>set ws. IsWindow api h s" and "hwnd d = 0"
  shows "chosen (enumerate_windows (EnumWindowsProc api s) ws d) =
     (let cands = filter (\<lambda>h. GetWindowThreadProcessId api h s = processId d \<and>
                               \<not> is_system_class (GetClassNameA api h s)) ws
      in case find (rank1 api s) cands of
           Some h \<Rightarrow> h
         | None \<Rightarrow> if bestHwnd d \<noteq> 0 then bestHwnd d
                    else (case find (not_tool_window api s) cands of Some h \<Rightarrow> h | None \<Rightarrow> 0))"
  using assms
proof (induction ws arbitrary: d)
  case Nil
  then show ?case by (simp add: chosen_def)
next
  case (Cons h hs)
  then have h0: "h \<noteq> 0" and live: "IsWindow api h s" by auto
  from Cons.prems have tl: "0 \<notin> set hs" "\<forall>h\<in>set hs. IsWindow api h s" by auto
  show ?case
  proof (cases "GetWindowThreadProcessId api h s = processId d \<and> \<not> is_system_class (GetClassNameA api h s)")
    case False
    then show ?thesis
      using Cons.IH [OF tl Cons.prems(3)] by (auto simp add: EnumWindowsProc_cases Let_def split: option.splits)
  next
    case cand: True
    show ?thesis
    proof (cases "rank1 api s h")
      case True
      then show ?thesis using cand h0 by (simp add: EnumWindowsProc_cases chosen_def)
    next
      case nr: False
      show ?thesis
      proof (cases "bestHwnd d = 0 \<and> not_tool_window api s h")
        case True
        have "hwnd (d\<lparr>bestHwnd := h\<rparr>) = 0" using Cons.prems(3) by simp
        from Cons.IH [OF tl this] show ?thesis
          using cand nr True live h0
          by (auto simp add: EnumWindowsProc_cases Let_def split: option.splits)
      next
        case False
        then show ?thesis
          using Cons.IH [OF tl Cons.prems(3)] cand nr by (auto simp add: EnumWindowsProc_cases Let_def split: option.splits)
      qed
    qed
  qed
qed

lemma FindMainWindow_resolves:
  assumes "0 \<notin> set (EnumWindows api s)" and "\<forall>h\<in>set (EnumWindows api s). IsWindow api h s"
  shows "FindMainWindow api pid s =
           (case resolveMainWindow_spec api pid s of Some h \<Rightarrow> h | None \<Rightarrow> 0)"
  using enumerate_chosen [OF assms, of "\<lparr>processId = pid, hwnd = 0, bestHwnd = 0\<rparr>"]
  by (simp add: FindMainWindow_def chosen_def Let_def resolveMainWindow_spec_def process_windows_def
      split: option.splits)

lemma resolveMainWindow_spec_in:
  assumes "resolveMainWindow_spec api pid s = Some h"
  shows "h \<in> set (EnumWindows api s)"
proof -
  from assms have "h \<in> set (process_windows api pid s)"
    by (auto simp add: resolveMainWindow_spec_def find_Some_iff split: option.splits)
  then show ?thesis by (simp add: process_windows_def)
qed

lemma EnumWindowsProc_processId: "processId (snd (EnumWindowsProc api s h d)) = processId d"
  by (simp add: EnumWindowsProc_cases)

lemma enumerate_windows_stops:
  assumes "GetWindowThreadProcessId api h s = processId d"
    and "\<not> is_system_class (GetClassNameA api h s)" and "rank1 api s h"
  shows "enumerate_windows (EnumWindowsProc api s) (pre @ h # post) d =
         enumerate_windows (EnumWindowsProc api s) (pre @ [h]) d"
  using assms(1)
proof (induction pre arbitrary: d)
  case Nil
  then show ?case using assms(2,3) by (simp add: EnumWindowsProc_cases)
next
  case (Cons a pre)
  obtain c d' where step: "EnumWindowsProc api s a d = (c, d')" by (cases "EnumWindowsProc api s a d")
  with EnumWindowsProc_processId [of api s a d] have "processId d' = processId d" by simp
  with Cons.prems have "GetWindowThreadProcessId api h s = processId d'" by simp
  from Cons.IH [OF this] step show ?case by simp
qed

lemma enumerate_windows_from:
  "processId (enumerate_windows (EnumWindowsProc api s) ws d) = processId d \<and>
   hwnd (enumerate_windows (EnumWindowsProc api s) ws d)
     \<in> insert (hwnd d) {h \<in> set ws. GetWindowThreadProcessId api h s = processId d} \<and>
   bestHwnd (enumerate_windows (EnumWindowsProc api s) ws d)
     \<in> insert (bestHwnd d) {h \<in> set ws. GetWindowThreadProcessId api h s = processId d \<and> IsWindow api h s}"
proof (induction ws arbitrary: d)
  case Nil
  then show ?case by simp
next
  case (Cons a ws)
  show ?case
    using Cons.IH [of d] Cons.IH [of "d\<lparr>bestHwnd := a\<rparr>"]
    by (auto simp add: EnumWindowsProc_cases)
qed

lemma FindMainWindow_from:
  "FindMainWindow api pid s = 0 \<or>
   (FindMainWindow api pid s \<in> set (EnumWindows api s) \<and>
    GetWindowThreadProcessId api (FindMainWindow api pid s) s = pid)"
  using enumerate_windows_from [of api s "EnumWindows api s" "\<lparr>processId = pid, hwnd = 0, bestHwnd = 0\<rparr>"]
  by (auto simp add: FindMainWindow_def Let_def)

lemma mock_sel2 [simp]:
  "IsWindowVisible mock = m_IsWindowVisible" "GetParent mock = m_GetParent"
  "GetWindowThreadProcessId mock = m_GetWindowThreadProcessId"
  "GetClassNameA mock = m_GetClassNameA" "GetWindowTextA mock = m_GetWindowTextA"
  "EnumWindows mock = m_EnumWindows" "GetModuleFileNameExA mock = m_GetModuleFileNameExA"
  "CreateProcessA mock = m_CreateProcessA" "OpenProcess mock = m_OpenProcess"
  "TerminateProcess mock = m_TerminateProcess" "CloseHandle mock = m_CloseHandle"
  by (simp_all add: mock_def)

lemmas resolver_defs =
  GetMainWindowAPI_def FindMainWindow_def EnumWindowsProc_def is_system_class_def
  m_EnumWindows_def m_IsWindowVisible_def m_GetParent_def m_GetWindowThreadProcessId_def
  m_GetClassNameA_def m_GetWindowTextA_def


lemma EmbedWindow_exStyle_bits:
  "EmbedWindow_exStyle e AND
     (WS_EX_DLGMODALFRAME OR WS_EX_WINDOWEDGE OR WS_EX_CLIENTEDGE OR WS_EX_STATICEDGE) = 0"
  "EmbedWindow_exStyle e AND
     NOT (WS_EX_DLGMODALFRAME OR WS_EX_WINDOWEDGE OR WS_EX_CLIENTEDGE OR WS_EX_STATICEDGE) =
   e AND NOT (WS_EX_DLGMODALFRAME OR WS_EX_WINDOWEDGE OR WS_EX_CLIENTEDGE OR WS_EX_STATICEDGE)"
  by (rule bit_word_eqI; auto simp add: EmbedWindow_exStyle_def bit_simps bit_WS)+


subsection \<open>The results of the exported operations\<close>

lemmas result_defs = failed_def result_Set_def Object_New_def Let_def

lemma LaunchApplication_result:
  "(\<not> expected_arguments launchApplication info \<longrightarrow>
      (\<exists>msg. LaunchApplication api info s = (ThrownTypeError msg, s))) \<and>
   (expected_arguments launchApplication info \<longrightarrow>
      (\<exists>r s'. LaunchApplication api info s = (Returned r, s') \<and>
         (\<exists>b. r ''success'' = Some (JBoolean b)) \<and>
         (r ''success'' = Some (JBoolean False) \<longrightarrow> (\<exists>msg. r ''error'' = Some (JString msg)))))"
  by (auto simp add: LaunchApplication_def result_defs split: prod.splits option.splits)

lemma EmbedWindow_result:
  "(\<not> expected_arguments embedWindow info \<longrightarrow>
      (\<exists>msg. EmbedWindow api info s = (ThrownTypeError msg, s))) \<and>
   (expected_arguments embedWindow info \<longrightarrow>
      (\<exists>r s'. EmbedWindow api info s = (Returned r, s') \<and>
         (\<exists>b. r ''success'' = Some (JBoolean b)) \<and>
         (r ''success'' = Some (JBoolean False) \<longrightarrow> (\<exists>msg. r ''error'' = Some (JString msg)))))"
  by (auto simp add: EmbedWindow_def EmbedWindow_body_def result_defs split: prod.splits)

lemma ShowWindowNative_result:
  "(\<not> expected_arguments showWindow info \<longrightarrow>
      (\<exists>msg. ShowWindowNative api info s = (ThrownTypeError msg, s))) \<and>
   (expected_arguments showWindow info \<longrightarrow>
      (\<exists>r s'. ShowWindowNative api info s = (Returned r, s') \<and>
         (\<exists>b. r ''success'' = Some (JBoolean b)) \<and>
         (r ''success'' = Some (JBoolean False) \<longrightarrow> (\<exists>msg. r ''error'' = Some (JString msg)))))"
  by (auto simp add: ShowWindowNative_def result_defs split: prod.splits)

lemma ResizeWindow_result:
  "(\<not> expected_arguments resizeWindow info \<longrightarrow>
      (\<exists>msg. ResizeWindow api info s = (ThrownTypeError msg, s))) \<and>
   (expected_arguments resizeWindow info \<longrightarrow>
      (\<exists>r s'. ResizeWindow api info s = (Returned r, s') \<and>
         (\<exists>b. r ''success'' = Some (JBoolean b)) \<and>
         (r ''success'' = Some (JBoolean False) \<longrightarrow> (\<exists>msg. r ''error'' = Some (JString msg)))))"
  by (auto simp add: ResizeWindow_def result_defs split: prod.splits)

lemma MoveWindowNative_result:
  "(\<not> expected_arguments moveWindow info \<longrightarrow>
      (\<exists>msg. MoveWindowNative api info s = (ThrownTypeError msg, s))) \<and>
   (expected_arguments moveWindow info \<longrightarrow>
      (\<exists>r s'. MoveWindowNative api info s = (Returned r, s') \<and>
         (\<exists>b. r ''success'' = Some (JBoolean b)) \<and>
         (r ''success'' = Some (JBoolean False) \<longrightarrow> (\<exists>msg. r ''error'' = Some (JString msg)))))"
  by (auto simp add: MoveWindowNative_def result_defs split: prod.splits option.splits)

lemma UnparentWindow_result:
  "(\<not> expected_arguments unparentWindow info \<longrightarrow>
      (\<exists>msg. UnparentWindow api info s = (ThrownTypeError msg, s))) \<and>
   (expected_arguments unparentWindow info \<longrightarrow>
      (\<exists>r s'. UnparentWindow api info s = (Returned r, s') \<and>
         (\<exists>b. r ''success'' = Some (JBoolean b)) \<and>
         (r ''success'' = Some (JBoolean False) \<longrightarrow> (\<exists>msg. r ''error'' = Some (JString msg)))))"
  by (auto simp add: UnparentWindow_def result_defs split: prod.splits)

lemma TerminateProcessNative_result:
  "(\<not> expected_arguments terminateProcess info \<longrightarrow>
      (\<exists>msg. TerminateProcessNative api info s = (ThrownTypeError msg, s))) \<and>
   (expected_arguments terminateProcess info \<longrightarrow>
      (\<exists>r s'. TerminateProcessNative api info s = (Returned r, s') \<and>
         (\<exists>b. r ''success'' = Some (JBoolean b)) \<and>
         (r ''success'' = Some (JBoolean False) \<longrightarrow> (\<exists>msg. r ''error'' = Some (JString msg)))))"
  by (auto simp add: TerminateProcessNative_def result_defs split: prod.splits)

lemma GetWindowInfoNative_result:
  "(\<not> expected_arguments getWindowInfo info \<longrightarrow>
      (\<exists>msg. GetWindowInfoNative api info s = (ThrownTypeError msg, s))) \<and>
   (expected_arguments getWindowInfo info \<longrightarrow>
      (\<exists>r s'. GetWindowInfoNative api info s = (Returned r, s') \<and>
         (\<exists>b. r ''success'' = Some (JBoolean b)) \<and>
         (r ''success'' = Some (JBoolean False) \<longrightarrow> (\<exists>msg. r ''error'' = Some (JString msg)))))"
  by (auto simp add: GetWindowInfoNative_def result_defs split: prod.splits)

lemma GetMainWindowAPI_result:
  "(\<not> expected_arguments getMainWindow info \<longrightarrow>
      (\<exists>msg. GetMainWindowAPI api info s = (ThrownTypeError msg, s))) \<and>
   (expected_arguments getMainWindow info \<longrightarrow>
      (\<exists>r s'. GetMainWindowAPI api info s = (Returned r, s') \<and>
         (\<exists>b. r ''success'' = Some (JBoolean b))))"
  by (auto simp add: GetMainWindowAPI_def result_defs)

lemma getMainWindow_failure_without_error:
  "\<not> IsWindow api (FindMainWindow api (word_of_int n) s) s \<Longrightarrow>
   \<exists>r. GetMainWindowAPI api [JNumber n] s = (Returned r, s) \<and>
       r ''success'' = Some (JBoolean False) \<and> r ''error'' = None"
  by (simp add: GetMainWindowAPI_def arg_def result_defs)


section \<open>Claims\<close>

subsection \<open>C1: embed followed by detach\<close>

text \<open>
  C1, as amended. The module keeps no snapshot of the style word: detach clears
  the child bit and sets the caption, resizable-frame, minimize-box,
  maximize-box and system-menu bits, whatever the window had before embed. On
  the mock windowing layer, for every live window on which embed succeeds, detach
  immediately afterwards leaves the window without a parent, and its style word
  is the one from before embed with the popup and child bits cleared and the
  visible, caption, resizable-frame, minimize-box, maximize-box and system-menu
  bits set. That is the word from before embed exactly when all of these six
  masks were set in it and neither the popup nor the child bit was. Detach
  reports success whenever the container was a window.
\<close>

theorem detach_after_embed:
  assumes "EmbedWindow mock info s = (Returned r1, s1)"
    and "r1 ''success'' = Some (JBoolean True)"
    and "windows s (Int64Value (arg info 0)) = Some w"
    and "UnparentWindow mock [arg info 0] s1 = (res2, s2)"
  shows "\<exists>w2. windows s2 (Int64Value (arg info 0)) = Some w2 \<and> m_parent w2 = 0 \<and>
           m_style w2 =
             (m_style w AND NOT (WS_POPUP OR WS_CHILD)) OR
             (WS_VISIBLE OR WS_CAPTION OR WS_THICKFRAME OR WS_MINIMIZEBOX OR WS_MAXIMIZEBOX OR WS_SYSMENU) \<and>
           (m_style w2 = m_style w \<longleftrightarrow>
              m_style w AND (WS_VISIBLE OR WS_CAPTION OR WS_THICKFRAME OR WS_MINIMIZEBOX OR WS_MAXIMIZEBOX OR WS_SYSMENU)
                = (WS_VISIBLE OR WS_CAPTION OR WS_THICKFRAME OR WS_MINIMIZEBOX OR WS_MAXIMIZEBOX OR WS_SYSMENU) \<and>
              m_style w AND (WS_POPUP OR WS_CHILD) = 0) \<and>
           (Int64Value (arg info 1) \<noteq> 0 \<longrightarrow>
              res2 = Returned (Object_New(''success'' \<mapsto> JBoolean True)))"
proof -
  let ?h = "Int64Value (arg info 0)"
  let ?A = "WS_POPUP OR WS_CHILD"
  let ?B = "WS_VISIBLE OR WS_CAPTION OR WS_THICKFRAME OR WS_MINIMIZEBOX OR WS_MAXIMIZEBOX OR WS_SYSMENU"
  let ?p = "Int64Value (arg info 1)"
  from assms(1) obtain x y cx cy where
    num: "IsNumber (arg info 0)" and e: "EmbedWindow_body mock ?h ?p x y cx cy s = (r1, s1)"
    by (auto simp add: EmbedWindow_def split: if_splits prod.splits)
  from num obtain n where n: "arg info 0 = JNumber n" by (cases "arg info 0") auto
  from mock_embed_success [OF e assms(2)] assms(3)
  have coop: "m_refuses w = 0" and le: "m_parent w = 0 \<longrightarrow> last_error s = 0"
    and le1: "last_error s1 = last_error s" and par: "?p \<noteq> 0 \<longrightarrow> windows s ?p \<noteq> None"
    and w1: "windows s1 = (windows s)(?h \<mapsto>
              w\<lparr>m_style := EmbedWindow_style (m_style w OR WS_VISIBLE) OR WS_VISIBLE,
                m_exstyle := EmbedWindow_exStyle (m_exstyle w),
                m_parent := ?p,
                m_rect := \<lparr>left = x, top = y, right = x + cx, bottom = y + cy\<rparr>\<rparr>)"
    by auto
  let ?w1 = "w\<lparr>m_style := EmbedWindow_style (m_style w OR WS_VISIBLE) OR WS_VISIBLE,
                m_exstyle := EmbedWindow_exStyle (m_exstyle w),
                m_parent := ?p,
                m_rect := \<lparr>left = x, top = y, right = x + cx, bottom = y + cy\<rparr>\<rparr>"
  have live1: "windows s1 ?h = Some ?w1" by (simp add: w1)
  have coop1: "m_refuses ?w1 = 0" by (simp add: coop)
  have hn: "word_of_int n = ?h" by (simp add: n)
  from mock_unparent [OF live1 coop1 hn] assms(4) n obtain
    res: "res2 = Returned (if m_parent ?w1 \<noteq> 0 \<or> last_error s1 = 0
                       then Object_New(''success'' \<mapsto> JBoolean True)
                       else failed (GetLastErrorString mock s1))"
    and w2: "windows s2 = (windows s1)(?h \<mapsto> ?w1\<lparr>m_style := UnparentWindow_style (m_style ?w1), m_parent := 0\<rparr>)"
    by auto
  have ok: "?p \<noteq> 0 \<longrightarrow> m_parent ?w1 \<noteq> 0" by simp
  have st: "m_style (?w1\<lparr>m_style := UnparentWindow_style (m_style ?w1), m_parent := 0\<rparr>) = (m_style w AND NOT ?A) OR ?B"
    by (simp add: detach_after_shown_embed_style)
  show ?thesis
    using res ok w2 st restored_iff [OF style_masks_disjoint, of "m_style w"]
    by (simp del: bit.conj_disj_distrib bit.disj_conj_distrib)
qed

theorem detach_after_embed_witness:
  "\<exists>w2. windows (snd (UnparentWindow mock [JNumber 0x300]
            (snd (EmbedWindow mock
               [JNumber 0x300, JNumber 0x200, JNumber 0, JNumber 0, JNumber 400, JNumber 300] desktop)))) 0x300
          = Some w2 \<and>
        m_parent w2 = 0 \<and> m_style w2 = 0x10CF0000 \<and> m_style w2 = m_style main_window"
proof -
  let ?info = "[JNumber 0x300, JNumber 0x200, JNumber 0, JNumber 0, JNumber 400, JNumber 300]"
  let ?s1 = "snd (EmbedWindow mock ?info desktop)"
  have a1: "EmbedWindow mock ?info desktop = (Returned [''success'' \<mapsto> JBoolean True], ?s1)"
    by (simp add: prod_eq_iff eval_defs)
  have a2: "[''success'' \<mapsto> JBoolean True] ''success'' = Some (JBoolean True)"
    by simp
  have a3: "windows desktop (Int64Value (arg ?info 0)) = Some main_window"
    by (simp add: desktop_def arg_def)
  have a4: "UnparentWindow mock [arg ?info 0] ?s1 =
              (fst (UnparentWindow mock [arg ?info 0] ?s1), snd (UnparentWindow mock [arg ?info 0] ?s1))"
    by simp
  from detach_after_embed [OF a1 a2 a3 a4] show ?thesis
    by (auto simp add: arg_def main_window_def style_defs)
qed

text \<open>
  C1 as stated fails on a borderless popup: embed succeeds, and after detach the
  popup bit is gone and the window has a caption and a resizable frame.
\<close>

theorem restore_counterexample:
  "fst (EmbedWindow mock [JNumber 0x100, JNumber 0x200, JNumber 0, JNumber 0, JNumber 400, JNumber 300] desktop)
     = Returned [''success'' \<mapsto> JBoolean True] \<and>
   map_option m_style (windows desktop 0x100) = Some 0x90000000 \<and>
   map_option m_style
     (windows (snd (UnparentWindow mock [JNumber 0x100]
        (snd (EmbedWindow mock [JNumber 0x100, JNumber 0x200, JNumber 0, JNumber 0, JNumber 400, JNumber 300] desktop)))) 0x100)
     = Some 0x10CF0000 \<and>
   (0x10CF0000 :: LONG) \<noteq> 0x90000000"
  by (simp add: eval_defs)

subsection \<open>C2: the style word that embed computes\<close>

text \<open>
  C2. The source tests \<^verbatim>\<open>originalStyle & WS_CAPTION\<close> to see whether the window had
  a caption. The caption mask is two bits wide and contains the border bit, so
  the test also holds for a window that has a plain border and no caption. At
  the style of a thin-bordered visible popup (popup, visible and border bits, no
  dialog-frame bit) the caption was not originally present, and the style that
  embed computes carries the full caption all the same.
\<close>

theorem EmbedWindow_style_border_only:
  "(0x90800000 :: LONG) AND WS_CAPTION = WS_BORDER \<and>
   EmbedWindow_style 0x90800000 = 0x50C00000 \<and>
   EmbedWindow_style 0x90800000 AND WS_CAPTION = WS_CAPTION"
  by (simp add: EmbedWindow_style_def Let_def style_defs)

subsection \<open>C3: the main-window resolver\<close>

text \<open>
  C3. Let the platform enumerate windows only (no null handle, every handle
  live). Then \<^verbatim>\<open>getMainWindow\<close> returns what the two-tier scan of the spec
  gives: among the windows of the process whose class is none of the four shell
  classes, the first that is visible, has no parent and has a title or a
  caption or border bit; if there is none, the first that is not a tool window;
  if there is none either, failure. And the enumeration stops at a rank-1
  window: the result of the enumeration does not depend on the windows after it,
  the callback is not applied to them.
\<close>

theorem GetMainWindowAPI_resolves:
  assumes "0 \<notin> set (EnumWindows api s)" and "\<forall>h\<in>set (EnumWindows api s). IsWindow api h s"
  shows "GetMainWindowAPI api [JNumber n] s =
           (Returned (case resolveMainWindow_spec api (word_of_int n) s of
                        Some h \<Rightarrow> [''success'' \<mapsto> JBoolean True, ''hwnd'' \<mapsto> JNumber (sint h)]
                      | None \<Rightarrow> [''success'' \<mapsto> JBoolean False]), s) \<and>
         (\<forall>pre h post.
            EnumWindows api s = pre @ h # post \<and>
            GetWindowThreadProcessId api h s = word_of_int n \<and>
            \<not> is_system_class (GetClassNameA api h s) \<and> rank1 api s h \<longrightarrow>
            enumerate_windows (EnumWindowsProc api s) (EnumWindows api s)
              \<lparr>processId = word_of_int n, hwnd = 0, bestHwnd = 0\<rparr> =
            enumerate_windows (EnumWindowsProc api s) (pre @ [h])
              \<lparr>processId = word_of_int n, hwnd = 0, bestHwnd = 0\<rparr>)"
proof (intro conjI allI impI)
  show "GetMainWindowAPI api [JNumber n] s =
           (Returned (case resolveMainWindow_spec api (word_of_int n) s of
                        Some h \<Rightarrow> [''success'' \<mapsto> JBoolean True, ''hwnd'' \<mapsto> JNumber (sint h)]
                      | None \<Rightarrow> [''success'' \<mapsto> JBoolean False]), s)"
  proof (cases "resolveMainWindow_spec api (word_of_int n) s")
    case None
    then show ?thesis
      using FindMainWindow_resolves [OF assms, of "word_of_int n"]
      by (simp add: GetMainWindowAPI_def arg_def Let_def result_Set_def Object_New_def)
  next
    case (Some h)
    from resolveMainWindow_spec_in [OF Some] assms have "h \<noteq> 0" "IsWindow api h s" by auto
    then show ?thesis
      using FindMainWindow_resolves [OF assms, of "word_of_int n"] Some
      by (simp add: GetMainWindowAPI_def arg_def Let_def result_Set_def Object_New_def)
  qed
next
  fix pre h post
  assume a: "EnumWindows api s = pre @ h # post \<and>
            GetWindowThreadProcessId api h s = word_of_int n \<and>
            \<not> is_system_class (GetClassNameA api h s) \<and> rank1 api s h"
  then show "enumerate_windows (EnumWindowsProc api s) (EnumWindows api s)
              \<lparr>processId = word_of_int n, hwnd = 0, bestHwnd = 0\<rparr> =
            enumerate_windows (EnumWindowsProc api s) (pre @ [h])
              \<lparr>processId = word_of_int n, hwnd = 0, bestHwnd = 0\<rparr>"
    using enumerate_windows_stops [of api h s "\<lparr>processId = word_of_int n, hwnd = 0, bestHwnd = 0\<rparr>" pre post]
    by simp
qed

theorem GetMainWindowAPI_resolves_witness:
  "EnumWindows mock desktop = [0x600, 0x100, 0x300, 0x200, 0x400, 0x500] \<and>
   resolveMainWindow_spec mock 4242 desktop = Some 0x100 \<and>
   GetMainWindowAPI mock [JNumber 4242] desktop =
     (Returned [''success'' \<mapsto> JBoolean True, ''hwnd'' \<mapsto> JNumber 0x100], desktop) \<and>
   enumerate_windows (EnumWindowsProc mock desktop) (EnumWindows mock desktop)
       \<lparr>processId = 4242, hwnd = 0, bestHwnd = 0\<rparr> =
     enumerate_windows (EnumWindowsProc mock desktop) [0x600, 0x100]
       \<lparr>processId = 4242, hwnd = 0, bestHwnd = 0\<rparr>"
proof -
  have ws: "EnumWindows mock desktop = [0x600, 0x100, 0x300, 0x200, 0x400, 0x500]"
    by (simp add: resolver_defs eval_defs)
  have a1: "0 \<notin> set (EnumWindows mock desktop)"
    using ws by simp
  have a2: "\<forall>h\<in>set (EnumWindows mock desktop). IsWindow mock h desktop"
    using ws by (simp add: m_IsWindow_def desktop_def)
  have sp: "resolveMainWindow_spec mock 4242 desktop = Some 0x100"
    by (simp add: resolveMainWindow_spec_def process_windows_def rank1_def not_tool_window_def
        resolver_defs eval_defs)
  have st: "EnumWindows mock desktop = [0x600] @ 0x100 # [0x300, 0x200, 0x400, 0x500] \<and>
            GetWindowThreadProcessId mock 0x100 desktop = word_of_int 4242 \<and>
            \<not> is_system_class (GetClassNameA mock 0x100 desktop) \<and> rank1 mock desktop 0x100"
    using ws by (simp add: rank1_def resolver_defs eval_defs)
  note r = GetMainWindowAPI_resolves [OF a1 a2, of 4242]
  from r [THEN conjunct1] sp
  have 1: "GetMainWindowAPI mock [JNumber 4242] desktop =
     (Returned [''success'' \<mapsto> JBoolean True, ''hwnd'' \<mapsto> JNumber 0x100], desktop)"
    by simp
  from r [THEN conjunct2, rule_format, OF st]
  have 2: "enumerate_windows (EnumWindowsProc mock desktop) (EnumWindows mock desktop)
       \<lparr>processId = 4242, hwnd = 0, bestHwnd = 0\<rparr> =
     enumerate_windows (EnumWindowsProc mock desktop) [0x600, 0x100]
       \<lparr>processId = 4242, hwnd = 0, bestHwnd = 0\<rparr>"
    by (simp del: enumerate_windows.simps)
  from ws sp 1 2 show ?thesis by blast
qed

subsection \<open>C4: a refused reparenting\<close>

text \<open>
  C4. For every windowing layer: when the handle is a live window and the
  reparenting call of embed fails, that is, returns no previous parent and
  leaves a last-error code other than 0, embed returns failure in the state the
  call left. The message is the refusal message when the code is 87 (invalid
  parameter), and for every other code it is \<open>Failed to set parent: \<close> followed by
  the text of the system for that code.
\<close>

theorem embed_reparent_failure:
  assumes "length info \<ge> 6"
    and "IsNumber (arg info 0) \<and> IsNumber (arg info 1) \<and> IsNumber (arg info 2) \<and>
         IsNumber (arg info 3) \<and> IsNumber (arg info 4) \<and> IsNumber (arg info 5)"
    and "IsWindow api (Int64Value (arg info 0)) s"
    and "SetParent api (Int64Value (arg info 0)) (Int64Value (arg info 1))
           (snd (SetForegroundWindow api (Int64Value (arg info 0))
              (snd (BringWindowToTop api (Int64Value (arg info 0))
                 (snd (ShowWindow api (Int64Value (arg info 0)) SW_SHOW s)))))) = (0, s4)"
    and "GetLastError api s4 \<noteq> 0"
  shows "EmbedWindow api info s =
           (Returned (failed
              (if GetLastError api s4 = 87
               then ''Application refuses window embedding (security restriction)''
               else ''Failed to set parent: '' @ FormatMessageA api (GetLastError api s4))), s4)"
  using assms
  by (simp add: EmbedWindow_def EmbedWindow_body_def Let_def GetLastErrorString_def)

theorem embed_reparent_failure_witness:
  "fst (EmbedWindow mock [JNumber 0x400, JNumber 0x200, JNumber 0, JNumber 0, JNumber 400, JNumber 300] desktop)
     = Returned (failed ''Application refuses window embedding (security restriction)'') \<and>
   fst (EmbedWindow mock [JNumber 0x500, JNumber 0x200, JNumber 0, JNumber 0, JNumber 400, JNumber 300] desktop)
     = Returned (failed ''Failed to set parent: Access is denied.'')"
proof -
  let ?a = "[JNumber 0x400, JNumber 0x200, JNumber 0, JNumber 0, JNumber 400, JNumber 300]"
  let ?b = "[JNumber 0x500, JNumber 0x200, JNumber 0, JNumber 0, JNumber 400, JNumber 300]"
  let ?pa = "SetParent mock (Int64Value (arg ?a 0)) (Int64Value (arg ?a 1))
           (snd (SetForegroundWindow mock (Int64Value (arg ?a 0))
              (snd (BringWindowToTop mock (Int64Value (arg ?a 0))
                 (snd (ShowWindow mock (Int64Value (arg ?a 0)) SW_SHOW desktop))))))"
  let ?pb = "SetParent mock (Int64Value (arg ?b 0)) (Int64Value (arg ?b 1))
           (snd (SetForegroundWindow mock (Int64Value (arg ?b 0))
              (snd (BringWindowToTop mock (Int64Value (arg ?b 0))
                 (snd (ShowWindow mock (Int64Value (arg ?b 0)) SW_SHOW desktop))))))"
  have a1: "length ?a \<ge> 6" and b1: "length ?b \<ge> 6" by simp_all
  have a2: "IsNumber (arg ?a 0) \<and> IsNumber (arg ?a 1) \<and> IsNumber (arg ?a 2) \<and>
         IsNumber (arg ?a 3) \<and> IsNumber (arg ?a 4) \<and> IsNumber (arg ?a 5)"
    by (simp add: arg_def)
  have b2: "IsNumber (arg ?b 0) \<and> IsNumber (arg ?b 1) \<and> IsNumber (arg ?b 2) \<and>
         IsNumber (arg ?b 3) \<and> IsNumber (arg ?b 4) \<and> IsNumber (arg ?b 5)"
    by (simp add: arg_def)
  have a3: "IsWindow mock (Int64Value (arg ?a 0)) desktop"
    by (simp add: arg_def m_IsWindow_def desktop_def)
  have b3: "IsWindow mock (Int64Value (arg ?b 0)) desktop"
    by (simp add: arg_def m_IsWindow_def desktop_def)
  have a4: "?pa = (0, snd ?pa)" by (simp add: prod_eq_iff eval_defs)
  have b4: "?pb = (0, snd ?pb)" by (simp add: prod_eq_iff eval_defs)
  have a5: "GetLastError mock (snd ?pa) = 87" by (simp add: eval_defs)
  have b5: "GetLastError mock (snd ?pb) = 5" by (simp add: eval_defs)
  have a6: "GetLastError mock (snd ?pa) \<noteq> 0" by (simp only: a5) simp
  have b6: "GetLastError mock (snd ?pb) \<noteq> 0" by (simp only: b5) simp
  from embed_reparent_failure [OF a1 a2 a3 a4 a6]
  have "fst (EmbedWindow mock ?a desktop) =
          Returned (failed ''Application refuses window embedding (security restriction)'')"
    by (simp only: a5) simp
  moreover from embed_reparent_failure [OF b1 b2 b3 b4 b6]
  have "fst (EmbedWindow mock ?b desktop) = Returned (failed ''Failed to set parent: Access is denied.'')"
    by (simp only: b5) (simp add: m_FormatMessageA_def eval_defs)
  ultimately show ?thesis by simp
qed

subsection \<open>C5: embed on a handle that is not a window\<close>

text \<open>
  C5. For every windowing layer and every embed request (six numbers) whose
  handle is not a live window, embed returns the failure \<open>Invalid window handle\<close>
  and the state of the platform is the one before the call: no call that could
  change it was made. On the mock, which records every such call, the record
  stays empty.
\<close>

theorem embed_dead_handle:
  assumes "length info \<ge> 6"
    and "IsNumber (arg info 0) \<and> IsNumber (arg info 1) \<and> IsNumber (arg info 2) \<and>
         IsNumber (arg info 3) \<and> IsNumber (arg info 4) \<and> IsNumber (arg info 5)"
    and "\<not> IsWindow api (Int64Value (arg info 0)) s"
  shows "EmbedWindow api info s = (Returned (failed ''Invalid window handle''), s)"
  using assms
  by (simp add: EmbedWindow_def EmbedWindow_body_def)

theorem embed_dead_handle_witness:
  "EmbedWindow mock [JNumber 0xDEAD, JNumber 0x200, JNumber 0, JNumber 0, JNumber 400, JNumber 300] desktop
     = (Returned (failed ''Invalid window handle''), desktop) \<and>
   calls (snd (EmbedWindow mock
     [JNumber 0xDEAD, JNumber 0x200, JNumber 0, JNumber 0, JNumber 400, JNumber 300] desktop)) = []"
proof -
  let ?a = "[JNumber 0xDEAD, JNumber 0x200, JNumber 0, JNumber 0, JNumber 400, JNumber 300]"
  have a1: "length ?a \<ge> 6" by simp
  have a2: "IsNumber (arg ?a 0) \<and> IsNumber (arg ?a 1) \<and> IsNumber (arg ?a 2) \<and>
         IsNumber (arg ?a 3) \<and> IsNumber (arg ?a 4) \<and> IsNumber (arg ?a 5)"
    by (simp add: arg_def)
  have a3: "\<not> IsWindow mock (Int64Value (arg ?a 0)) desktop"
    by (simp add: arg_def m_IsWindow_def desktop_def)
  from embed_dead_handle [OF a1 a2 a3] show ?thesis
    by (simp add: desktop_def)
qed

subsection \<open>C6: move\<close>

text \<open>
  C6, as amended. For every windowing layer and every live window, move first
  reads the rectangle of the window and then makes one positioning call, with
  the width and height of that rectangle, the no-size flag and the show-window
  flag, and with the top of the Z order as the place to insert. On the mock the
  size of the window after the call is its size before the call and its
  position is the requested one; besides the position, the call sets the
  visible bit of the window and raises it to the top of the Z order. Nothing
  else of the window changes, and no other window does.
\<close>

theorem move_keeps_size:
  "(IsWindow api (word_of_int n) s \<and> GetWindowRect api (word_of_int n) s = (Some rect, s1) \<longrightarrow>
      MoveWindowNative api [JNumber n, JNumber x, JNumber y] s =
        (case SetWindowPos api (word_of_int n) HWND_TOP (word_of_int x) (word_of_int y)
                (right rect - left rect) (bottom rect - top rect)
                (SWP_NOSIZE OR SWP_SHOWWINDOW) s1 of
           (ok, s2) \<Rightarrow>
             (Returned (if ok then [''success'' \<mapsto> JBoolean True]
                        else [''success'' \<mapsto> JBoolean False,
                              ''error'' \<mapsto> JString (GetLastErrorString api s2)]), s2))) \<and>
   (windows ms (word_of_int n) = Some w \<longrightarrow>
      (\<exists>ms2 w2.
         MoveWindowNative mock [JNumber n, JNumber x, JNumber y] ms =
           (Returned [''success'' \<mapsto> JBoolean True], ms2) \<and>
         windows ms2 = (windows ms)(word_of_int n \<mapsto> w2) \<and>
         right (m_rect w2) - left (m_rect w2) = right (m_rect w) - left (m_rect w) \<and>
         bottom (m_rect w2) - top (m_rect w2) = bottom (m_rect w) - top (m_rect w) \<and>
         left (m_rect w2) = word_of_int x \<and> top (m_rect w2) = word_of_int y \<and>
         m_style w2 = m_style w OR WS_VISIBLE \<and>
         w2 = w\<lparr>m_rect := m_rect w2, m_style := m_style w2\<rparr> \<and>
         zorder ms2 = word_of_int n # removeAll (word_of_int n) (zorder ms) \<and>
         last_error ms2 = last_error ms \<and> processes ms2 = processes ms))"
proof (intro conjI impI)
  assume "IsWindow api (word_of_int n) s \<and> GetWindowRect api (word_of_int n) s = (Some rect, s1)"
  then show "MoveWindowNative api [JNumber n, JNumber x, JNumber y] s =
        (case SetWindowPos api (word_of_int n) HWND_TOP (word_of_int x) (word_of_int y)
                (right rect - left rect) (bottom rect - top rect)
                (SWP_NOSIZE OR SWP_SHOWWINDOW) s1 of
           (ok, s2) \<Rightarrow>
             (Returned (if ok then [''success'' \<mapsto> JBoolean True]
                        else [''success'' \<mapsto> JBoolean False,
                              ''error'' \<mapsto> JString (GetLastErrorString api s2)]), s2))"
    by (simp add: MoveWindowNative_def arg_def Let_def result_Set_def Object_New_def
        split: prod.splits)
next
  assume w: "windows ms (word_of_int n) = Some w"
  then show "\<exists>ms2 w2.
         MoveWindowNative mock [JNumber n, JNumber x, JNumber y] ms =
           (Returned [''success'' \<mapsto> JBoolean True], ms2) \<and>
         windows ms2 = (windows ms)(word_of_int n \<mapsto> w2) \<and>
         right (m_rect w2) - left (m_rect w2) = right (m_rect w) - left (m_rect w) \<and>
         bottom (m_rect w2) - top (m_rect w2) = bottom (m_rect w) - top (m_rect w) \<and>
         left (m_rect w2) = word_of_int x \<and> top (m_rect w2) = word_of_int y \<and>
         m_style w2 = m_style w OR WS_VISIBLE \<and>
         w2 = w\<lparr>m_rect := m_rect w2, m_style := m_style w2\<rparr> \<and>
         zorder ms2 = word_of_int n # removeAll (word_of_int n) (zorder ms) \<and>
         last_error ms2 = last_error ms \<and> processes ms2 = processes ms"
    by (intro exI [where x = "snd (MoveWindowNative mock [JNumber n, JNumber x, JNumber y] ms)"]
          exI [where x = "w\<lparr>m_rect := \<lparr>left = word_of_int x, top = word_of_int y,
                 right = word_of_int x + (right (m_rect w) - left (m_rect w)),
                 bottom = word_of_int y + (bottom (m_rect w) - top (m_rect w))\<rparr>,
               m_style := m_style w OR WS_VISIBLE\<rparr>"])
       (simp add: MoveWindowNative_def arg_def Let_def result_Set_def Object_New_def mock_ops flag_defs)
qed

theorem move_keeps_size_witness:
  "MoveWindowNative mock [JNumber 0x300, JNumber 7, JNumber 9] desktop =
     (Returned [''success'' \<mapsto> JBoolean True],
      snd (SetWindowPos mock 0x300 HWND_TOP 7 9 640 480 (SWP_NOSIZE OR SWP_SHOWWINDOW) desktop)) \<and>
   (\<exists>w2. windows (snd (MoveWindowNative mock [JNumber 0x300, JNumber 7, JNumber 9] desktop)) 0x300 = Some w2 \<and>
      right (m_rect w2) - left (m_rect w2) = 640 \<and> bottom (m_rect w2) - top (m_rect w2) = 480 \<and>
      left (m_rect w2) = 7 \<and> top (m_rect w2) = 9)"
proof -
  note t = move_keeps_size
             [where api = mock and n = "0x300" and s = desktop and x = 7 and y = 9 and ms = desktop
                and w = main_window and rect = "m_rect main_window" and ?s1.0 = desktop]
  have a1: "IsWindow mock (word_of_int 0x300) desktop \<and>
            GetWindowRect mock (word_of_int 0x300) desktop = (Some (m_rect main_window), desktop)"
    by (simp add: m_IsWindow_def m_GetWindowRect_def desktop_def)
  have a2: "windows desktop (word_of_int 0x300) = Some main_window"
    by (simp add: desktop_def)
  from t [THEN conjunct1, rule_format, OF a1]
  have 1: "MoveWindowNative mock [JNumber 0x300, JNumber 7, JNumber 9] desktop =
     (Returned [''success'' \<mapsto> JBoolean True],
      snd (SetWindowPos mock 0x300 HWND_TOP 7 9 640 480 (SWP_NOSIZE OR SWP_SHOWWINDOW) desktop))"
    by (simp add: eval_defs split: prod.splits)
  from t [THEN conjunct2, rule_format, OF a2]
  have 2: "\<exists>w2. windows (snd (MoveWindowNative mock [JNumber 0x300, JNumber 7, JNumber 9] desktop)) 0x300 = Some w2 \<and>
      right (m_rect w2) - left (m_rect w2) = 640 \<and> bottom (m_rect w2) - top (m_rect w2) = 480 \<and>
      left (m_rect w2) = 7 \<and> top (m_rect w2) = 9"
    by (auto simp add: main_window_def)
  from 1 2 show ?thesis by blast
qed

text \<open>
  C6 as stated says that move changes the position only. A hidden window is
  also shown by it: its style word changes.
\<close>

theorem move_shows_counterexample:
  "fst (MoveWindowNative mock [JNumber 0x600, JNumber 40, JNumber 50] desktop)
     = Returned [''success'' \<mapsto> JBoolean True] \<and>
   map_option m_style (windows desktop 0x600) = Some 0x00CF0000 \<and>
   map_option m_style
     (windows (snd (MoveWindowNative mock [JNumber 0x600, JNumber 40, JNumber 50] desktop)) 0x600)
     = Some 0x10CF0000 \<and>
   (0x10CF0000 :: LONG) \<noteq> 0x00CF0000 \<and>
   map_option m_rect
     (windows (snd (MoveWindowNative mock [JNumber 0x600, JNumber 40, JNumber 50] desktop)) 0x600)
     = Some \<lparr>left = 40, top = 50, right = 140, bottom = 100\<rparr>"
  by (simp add: MoveWindowNative_def eval_defs)

subsection \<open>C7: results and exceptions at the boundary\<close>

text \<open>
  C7, as amended. Every exported operation first checks the number and the
  types of its arguments. When the check fails the operation throws a
  \<^verbatim>\<open>TypeError\<close> to the caller and has not touched the platform. When the
  arguments are as expected, the operation throws nothing and returns an object
  with a boolean \<open>success\<close>; for every operation other than \<^verbatim>\<open>getMainWindow\<close> a
  result with success false carries an error string.
\<close>

theorem boundary_results:
  "(\<not> expected_arguments op info \<longrightarrow> (\<exists>msg. invoke api op info s = (ThrownTypeError msg, s))) \<and>
   (expected_arguments op info \<longrightarrow>
      (\<exists>r s'. invoke api op info s = (Returned r, s') \<and>
         (\<exists>b. r ''success'' = Some (JBoolean b)) \<and>
         (op \<noteq> getMainWindow \<and> r ''success'' = Some (JBoolean False) \<longrightarrow>
            (\<exists>msg. r ''error'' = Some (JString msg)))))"
proof (cases op)
  case launchApplication
  then show ?thesis using LaunchApplication_result [of info api s] by simp
next
  case embedWindow
  then show ?thesis using EmbedWindow_result [of info api s] by simp
next
  case showWindow
  then show ?thesis using ShowWindowNative_result [of info api s] by simp
next
  case resizeWindow
  then show ?thesis using ResizeWindow_result [of info api s] by simp
next
  case moveWindow
  then show ?thesis using MoveWindowNative_result [of info api s] by simp
next
  case unparentWindow
  then show ?thesis using UnparentWindow_result [of info api s] by simp
next
  case terminateProcess
  then show ?thesis using TerminateProcessNative_result [of info api s] by simp
next
  case getWindowInfo
  then show ?thesis using GetWindowInfoNative_result [of info api s] by simp
next
  case getMainWindow
  then show ?thesis using GetMainWindowAPI_result [of info api s] by simp
qed

theorem boundary_results_witness:
  "(\<exists>msg. invoke mock showWindow [JNumber 0x100] desktop = (ThrownTypeError msg, desktop)) \<and>
   (\<exists>r s'. invoke mock moveWindow [JNumber 0xDEAD, JNumber 1, JNumber 2] desktop = (Returned r, s') \<and>
      r ''success'' = Some (JBoolean False) \<and> (\<exists>msg. r ''error'' = Some (JString msg)))"
proof -
  have a1: "\<not> expected_arguments showWindow [JNumber 0x100]"
    by (simp add: arg_def)
  have a2: "expected_arguments moveWindow [JNumber 0xDEAD, JNumber 1, JNumber 2]"
    by (simp add: arg_def)
  have a3: "fst (invoke mock moveWindow [JNumber 0xDEAD, JNumber 1, JNumber 2] desktop) =
              Returned (failed ''Invalid window handle'')"
    by (simp add: MoveWindowNative_def arg_def m_IsWindow_def desktop_def)
  have a4: "failed ''Invalid window handle'' ''success'' = Some (JBoolean False)"
    by (simp add: failed_def result_Set_def Object_New_def)
  from boundary_results [of showWindow "[JNumber 0x100]" mock desktop] a1
  have 1: "\<exists>msg. invoke mock showWindow [JNumber 0x100] desktop = (ThrownTypeError msg, desktop)"
    by blast
  from boundary_results [of moveWindow "[JNumber 0xDEAD, JNumber 1, JNumber 2]" mock desktop] a2
  obtain r s' where
    r: "invoke mock moveWindow [JNumber 0xDEAD, JNumber 1, JNumber 2] desktop = (Returned r, s')"
    and e: "moveWindow \<noteq> getMainWindow \<and> r ''success'' = Some (JBoolean False) \<longrightarrow>
              (\<exists>msg. r ''error'' = Some (JString msg))"
    by blast
  from r a3 a4 have f: "r ''success'' = Some (JBoolean False)" by simp
  with e have "\<exists>msg. r ''error'' = Some (JString msg)" by simp
  with r f 1 show ?thesis by blast
qed

text \<open>
  C7 as stated says that no operation throws across the boundary. An embed call
  with one argument does.
\<close>

theorem boundary_throws_counterexample:
  "fst (invoke mock embedWindow [JNumber 0x100] desktop) =
     ThrownTypeError
       ''Expected (hwnd: number, parentHWND: number, x: number, y: number, width: number, height: number)''"
  by (simp add: EmbedWindow_def)

subsection \<open>C8: no window, no handle\<close>

text \<open>
  C8. Whatever the windowing layer and the arguments: a result of
  \<^verbatim>\<open>getMainWindow\<close> that carries a handle carries one that is not null and is a
  live window in the state in which the call returns, and reports success. And
  if the process has no live window among the enumerated ones, the call returns
  failure, with no handle.
\<close>

theorem GetMainWindowAPI_live:
  "(\<forall>r s' v. GetMainWindowAPI api info s = (Returned r, s') \<and> r ''hwnd'' = Some v \<longrightarrow>
      (\<exists>h. v = JNumber (sint h) \<and> h \<noteq> 0 \<and> IsWindow api h s' \<and>
           r ''success'' = Some (JBoolean True))) \<and>
   (length info \<ge> 1 \<and> IsNumber (arg info 0) \<and>
    (\<forall>h\<in>set (EnumWindows api s).
       GetWindowThreadProcessId api h s = Uint32Value (arg info 0) \<longrightarrow> \<not> IsWindow api h s) \<longrightarrow>
    GetMainWindowAPI api info s = (Returned [''success'' \<mapsto> JBoolean False], s))"
proof (intro conjI allI impI)
  fix r s' v
  assume "GetMainWindowAPI api info s = (Returned r, s') \<and> r ''hwnd'' = Some v"
  then show "\<exists>h. v = JNumber (sint h) \<and> h \<noteq> 0 \<and> IsWindow api h s' \<and>
           r ''success'' = Some (JBoolean True)"
    by (auto simp add: GetMainWindowAPI_def Let_def result_Set_def Object_New_def split: if_splits)
next
  assume a: "length info \<ge> 1 \<and> IsNumber (arg info 0) \<and>
    (\<forall>h\<in>set (EnumWindows api s).
       GetWindowThreadProcessId api h s = Uint32Value (arg info 0) \<longrightarrow> \<not> IsWindow api h s)"
  let ?h = "FindMainWindow api (Uint32Value (arg info 0)) s"
  from FindMainWindow_from [of api "Uint32Value (arg info 0)" s] a
  have "?h = 0 \<or> \<not> IsWindow api ?h s" by auto
  with a show "GetMainWindowAPI api info s = (Returned [''success'' \<mapsto> JBoolean False], s)"
    by (auto simp add: GetMainWindowAPI_def Let_def result_Set_def Object_New_def)
qed

theorem GetMainWindowAPI_live_witness:
  "GetMainWindowAPI mock [JNumber 9999] desktop = (Returned [''success'' \<mapsto> JBoolean False], desktop) \<and>
   (\<exists>h. JNumber 0x100 = JNumber (sint h) \<and> h \<noteq> 0 \<and> IsWindow mock h desktop)"
proof -
  have ws: "EnumWindows mock desktop = [0x600, 0x100, 0x300, 0x200, 0x400, 0x500]"
    by (simp add: resolver_defs eval_defs)
  have a: "length [JNumber 9999] \<ge> 1 \<and> IsNumber (arg [JNumber 9999] 0) \<and>
    (\<forall>h\<in>set (EnumWindows mock desktop).
       GetWindowThreadProcessId mock h desktop = Uint32Value (arg [JNumber 9999] 0) \<longrightarrow>
       \<not> IsWindow mock h desktop)"
    using ws by (simp add: arg_def resolver_defs eval_defs)
  have b: "GetMainWindowAPI mock [JNumber 4242] desktop =
             (Returned [''success'' \<mapsto> JBoolean True, ''hwnd'' \<mapsto> JNumber 0x100], desktop) \<and>
           [''success'' \<mapsto> JBoolean True, ''hwnd'' \<mapsto> JNumber 0x100] ''hwnd'' = Some (JNumber 0x100)"
    by (simp add: resolver_defs eval_defs)
  from GetMainWindowAPI_live [of mock "[JNumber 9999]" desktop] a
  have 1: "GetMainWindowAPI mock [JNumber 9999] desktop = (Returned [''success'' \<mapsto> JBoolean False], desktop)"
    by blast
  from GetMainWindowAPI_live [of mock "[JNumber 4242]" desktop] b
  have 2: "\<exists>h. JNumber 0x100 = JNumber (sint h) \<and> h \<noteq> 0 \<and> IsWindow mock h desktop"
    by blast
  from 1 2 show ?thesis by simp
qed

subsection \<open>C9: the extended style\<close>

text \<open>
  C9. On the mock windowing layer, a successful embed has written the extended
  style of the window: the dialog-modal-frame, window-edge, client-edge and
  static-edge bits are clear afterwards, every other bit is as before, and the
  write is among the calls made. A detach that follows leaves the extended
  style as embed left it; it does not bring the four bits back.
\<close>

theorem embed_rewrites_extended_style:
  assumes "EmbedWindow mock info s = (Returned r1, s1)"
    and "r1 ''success'' = Some (JBoolean True)"
    and "windows s (Int64Value (arg info 0)) = Some w"
    and "UnparentWindow mock [arg info 0] s1 = (res2, s2)"
  shows "\<exists>w1 w2.
           windows s1 (Int64Value (arg info 0)) = Some w1 \<and>
           m_exstyle w1 AND
             (WS_EX_DLGMODALFRAME OR WS_EX_WINDOWEDGE OR WS_EX_CLIENTEDGE OR WS_EX_STATICEDGE) = 0 \<and>
           m_exstyle w1 AND
             NOT (WS_EX_DLGMODALFRAME OR WS_EX_WINDOWEDGE OR WS_EX_CLIENTEDGE OR WS_EX_STATICEDGE) =
           m_exstyle w AND
             NOT (WS_EX_DLGMODALFRAME OR WS_EX_WINDOWEDGE OR WS_EX_CLIENTEDGE OR WS_EX_STATICEDGE) \<and>
           Call_SetWindowLongW (Int64Value (arg info 0)) GWL_EXSTYLE (m_exstyle w1) \<in> set (calls s1) \<and>
           windows s2 (Int64Value (arg info 0)) = Some w2 \<and>
           m_exstyle w2 = m_exstyle w1"
proof -
  let ?h = "Int64Value (arg info 0)"
  let ?p = "Int64Value (arg info 1)"
  from assms(1) obtain x y cx cy where
    num: "IsNumber (arg info 0)" and e: "EmbedWindow_body mock ?h ?p x y cx cy s = (r1, s1)"
    by (auto simp add: EmbedWindow_def split: if_splits prod.splits)
  from num obtain n where n: "arg info 0 = JNumber n" by (cases "arg info 0") auto
  let ?w1 = "w\<lparr>m_style := EmbedWindow_style (m_style w OR WS_VISIBLE) OR WS_VISIBLE,
                m_exstyle := EmbedWindow_exStyle (m_exstyle w),
                m_parent := ?p,
                m_rect := \<lparr>left = x, top = y, right = x + cx, bottom = y + cy\<rparr>\<rparr>"
  from mock_embed_success [OF e assms(2)] assms(3)
  have coop: "m_refuses w = 0" and w1: "windows s1 = (windows s)(?h \<mapsto> ?w1)"
    by auto
  from e assms(2) assms(3)
  have call: "Call_SetWindowLongW ?h GWL_EXSTYLE (EmbedWindow_exStyle (m_exstyle w)) \<in> set (calls s1)"
    by (auto simp add: EmbedWindow_body_def Let_def mock_ops flag_defs failed_def result_Set_def
        Object_New_def split: option.splits if_splits prod.splits)
  have live1: "windows s1 ?h = Some ?w1" by (simp add: w1)
  have coop1: "m_refuses ?w1 = 0" by (simp add: coop)
  have hn: "word_of_int n = ?h" by (simp add: n)
  from mock_unparent [OF live1 coop1 hn] assms(4) n
  have w2: "windows s2 = (windows s1)(?h \<mapsto> ?w1\<lparr>m_style := UnparentWindow_style (m_style ?w1), m_parent := 0\<rparr>)"
    by auto
  show ?thesis
    using live1 w2 call EmbedWindow_exStyle_bits [of "m_exstyle w"] by simp
qed

theorem embed_rewrites_extended_style_witness:
  "\<exists>w1 w2.
     windows (snd (EmbedWindow mock
        [JNumber 0x100, JNumber 0x200, JNumber 0, JNumber 0, JNumber 400, JNumber 300] desktop)) 0x100 = Some w1 \<and>
     m_exstyle popup_window = 0x101 \<and>
     m_exstyle w1 AND 0x20301 = 0 \<and> m_exstyle w1 AND NOT 0x20301 = 0 \<and>
     windows (snd (UnparentWindow mock [JNumber 0x100] (snd (EmbedWindow mock
        [JNumber 0x100, JNumber 0x200, JNumber 0, JNumber 0, JNumber 400, JNumber 300] desktop)))) 0x100 = Some w2 \<and>
     m_exstyle w2 = m_exstyle w1"
proof -
  let ?info = "[JNumber 0x100, JNumber 0x200, JNumber 0, JNumber 0, JNumber 400, JNumber 300]"
  let ?s1 = "snd (EmbedWindow mock ?info desktop)"
  have a1: "EmbedWindow mock ?info desktop = (Returned [''success'' \<mapsto> JBoolean True], ?s1)"
    by (simp add: prod_eq_iff eval_defs)
  have a2: "[''success'' \<mapsto> JBoolean True] ''success'' = Some (JBoolean True)"
    by simp
  have a3: "windows desktop (Int64Value (arg ?info 0)) = Some popup_window"
    by (simp add: desktop_def arg_def)
  have a4: "UnparentWindow mock [arg ?info 0] ?s1 =
              (fst (UnparentWindow mock [arg ?info 0] ?s1), snd (UnparentWindow mock [arg ?info 0] ?s1))"
    by simp
  from embed_rewrites_extended_style [OF a1 a2 a3 a4] show ?thesis
    by (auto simp add: arg_def popup_window_def style_defs)
qed

subsection \<open>C10: what show and hide report\<close>

text \<open>
  C10. For every windowing layer and every live window, the success flag of
  \<^verbatim>\<open>showWindow\<close> is the value the platform's show call returns, and an error
  string is attached exactly when that value is false. On the mock, where the
  show call returns the previous visibility as the platform documents it: the
  flag is the previous visibility of the window; a window that was hidden gets
  success false and an error string; and in both cases the window ends up
  visible or hidden as asked.
\<close>

theorem show_reports_previous_visibility:
  "(IsWindow api (word_of_int n) s \<longrightarrow>
      ShowWindowNative api [JNumber n, JBoolean b] s =
        (case ShowWindow api (word_of_int n) (if b then SW_SHOW else SW_HIDE) s of
           (ret, s1) \<Rightarrow>
             (Returned (if ret then [''success'' \<mapsto> JBoolean True]
                        else [''success'' \<mapsto> JBoolean False,
                              ''error'' \<mapsto> JString (GetLastErrorString api s1)]), s1))) \<and>
   (windows ms (word_of_int n) = Some w \<longrightarrow>
      (\<exists>r ms1 w1.
         ShowWindowNative mock [JNumber n, JBoolean b] ms = (Returned r, ms1) \<and>
         r ''success'' = Some (JBoolean (m_style w AND WS_VISIBLE \<noteq> 0)) \<and>
         (m_style w AND WS_VISIBLE = 0 \<longrightarrow> (\<exists>msg. r ''error'' = Some (JString msg))) \<and>
         windows ms1 (word_of_int n) = Some w1 \<and>
         (m_style w1 AND WS_VISIBLE \<noteq> 0) = b))"
proof (intro conjI impI)
  assume "IsWindow api (word_of_int n) s"
  then show "ShowWindowNative api [JNumber n, JBoolean b] s =
        (case ShowWindow api (word_of_int n) (if b then SW_SHOW else SW_HIDE) s of
           (ret, s1) \<Rightarrow>
             (Returned (if ret then [''success'' \<mapsto> JBoolean True]
                        else [''success'' \<mapsto> JBoolean False,
                              ''error'' \<mapsto> JString (GetLastErrorString api s1)]), s1))"
    by (simp add: ShowWindowNative_def arg_def Let_def result_Set_def Object_New_def
        split: prod.splits)
next
  assume w: "windows ms (word_of_int n) = Some w"
  have vis: "(m_style w OR WS_VISIBLE) AND WS_VISIBLE \<noteq> 0"
    by (auto simp add: word_neq_0_bit bit_simps bit_WS)
  have hid: "(m_style w AND NOT WS_VISIBLE) AND WS_VISIBLE = 0"
    by (rule bit_word_eqI) (auto simp add: bit_simps bit_WS)
  from w vis hid show "\<exists>r ms1 w1.
         ShowWindowNative mock [JNumber n, JBoolean b] ms = (Returned r, ms1) \<and>
         r ''success'' = Some (JBoolean (m_style w AND WS_VISIBLE \<noteq> 0)) \<and>
         (m_style w AND WS_VISIBLE = 0 \<longrightarrow> (\<exists>msg. r ''error'' = Some (JString msg))) \<and>
         windows ms1 (word_of_int n) = Some w1 \<and>
         (m_style w1 AND WS_VISIBLE \<noteq> 0) = b"
    by (cases b)
       (simp_all add: ShowWindowNative_def arg_def Let_def result_Set_def Object_New_def mock_ops
          SW_SHOW_def SW_HIDE_def)
qed

theorem show_reports_previous_visibility_witness:
  "ShowWindowNative mock [JNumber 0x600, JBoolean True] desktop =
     (Returned [''success'' \<mapsto> JBoolean False, ''error'' \<mapsto> JString ''Unknown error''],
      snd (ShowWindow mock 0x600 SW_SHOW desktop)) \<and>
   (\<exists>w1. windows (snd (ShowWindowNative mock [JNumber 0x600, JBoolean True] desktop)) 0x600 = Some w1 \<and>
         m_style w1 AND WS_VISIBLE \<noteq> 0)"
proof -
  note t = show_reports_previous_visibility
             [where api = mock and n = "0x600" and s = desktop and b = True and ms = desktop
                and w = hidden_window]
  have a1: "IsWindow mock (word_of_int 0x600) desktop"
    by (simp add: m_IsWindow_def desktop_def)
  have a2: "windows desktop (word_of_int 0x600) = Some hidden_window"
    by (simp add: desktop_def)
  have a3: "m_style hidden_window AND WS_VISIBLE = 0"
    by (simp add: hidden_window_def WS_VISIBLE_def)
  from t [THEN conjunct1, rule_format, OF a1]
  have 1: "ShowWindowNative mock [JNumber 0x600, JBoolean True] desktop =
     (Returned [''success'' \<mapsto> JBoolean False, ''error'' \<mapsto> JString ''Unknown error''],
      snd (ShowWindow mock 0x600 SW_SHOW desktop))"
    by (simp add: eval_defs split: prod.splits)
  from t [THEN conjunct2, rule_format, OF a2] a3
  have 2: "\<exists>w1. windows (snd (ShowWindowNative mock [JNumber 0x600, JBoolean True] desktop)) 0x600 = Some w1 \<and>
         m_style w1 AND WS_VISIBLE \<noteq> 0"
    by auto
  from 1 2 show ?thesis by blast
qed

end
